theory Spec2Isabelle
  imports Main "HOL-Library.Word"
begin

section \<open>The SPL abstract syntax tree and type layer (src/ast.h)\<close>

text \<open>
  The header declares the expression classes, the type classes and the parser's token
  enumeration. Objects live on the C++ heap and refer to each other through raw
  pointers: a \<open>Variable\<close> points back to the \<open>Binding\<close> whose body contains it, so the
  syntax is a graph and not a tree. Objects are therefore kept in a store (a partial map
  from addresses to objects) and a pointer member is a value of \<open>ptr\<close>.
\<close>

subsection \<open>Pointers\<close>

text \<open>
  A pointer member is \<open>NULL\<close>, the address of an object, or \<open>Uninit\<close> when the constructor
  that built the object leaves the member without an initialiser (reading it is undefined
  behaviour). A C++ reference parameter (\<open>Expr &\<close>) is an address.
\<close>

type_synonym addr = nat

datatype ptr = NULL | Ref addr | Uninit

subsection \<open>Expressions\<close>

datatype Purity = Pure | Impure | Sealed | FunIO

text \<open>
  The members of \<open>Func\<close> (and of \<open>Extern\<close>, which adds none). \<open>GenericsAreBound\<close> is
  \<open>None\<close> where a constructor leaves the flag uninitialised. The specialization table
  \<open>functions\<close> is a \<open>std::map\<close> from vectors of \<open>SType*\<close> to \<open>Function*\<close>.
\<close>

record FuncFields =
  Name :: string
  Generics :: "ptr list"
  GenericPlaceholders :: "ptr list"
  GenericsAreBound :: "bool option"
  Args :: "string list"
  ArgSTypeNames :: "ptr list"
  ArgSTypes :: "ptr list"
  ArgRegs :: "ptr list"
  RetSTypeName :: ptr
  RetSType :: ptr
  Body :: ptr
  Context :: ptr
  Pureness :: Purity
  functions' :: "ptr list \<rightharpoonup> ptr"

text \<open>
  One constructor per concrete class, holding the members the class declares, in the
  order of their declaration. \<open>UnaryOp\<close> and \<open>BinaryOp\<close> are abstract (protected
  constructors); their members \<open>SubExpr\<close> and \<open>LHS\<close>, \<open>RHS\<close> are those of the subclasses.
\<close>

datatype ExprNode =
    Number "32 word"
  | StringLiteral string
  | Variable string ptr
  | Not ptr
  | Add ptr ptr
  | Subtract ptr ptr
  | Multiply ptr ptr
  | Eq ptr ptr
  | JoinString ptr ptr
  | Seq ptr ptr
  | Assign ptr ptr
  | ArrayAccess ptr ptr
  | Member ptr string
  | Binding string ptr ptr ptr bool
  | If ptr ptr ptr
  | While ptr ptr
  | Call string ptr "ptr list"
  | Register string ptr ptr bool
  | RegisterFunArg ptr
  | Func FuncFields
  | Extern FuncFields
  | Closure string "string list" "ptr list" ptr
  | Array ptr ptr ptr ptr
  | Constructor string ptr "ptr list" "ptr list"

text \<open>An object of class \<open>Expr\<close>: the base class's member \<open>ThisType\<close> and the subclass part.\<close>

record Expr =
  ThisType :: ptr
  node :: ExprNode

type_synonym expr_store = "addr \<rightharpoonup> Expr"

subsection \<open>Virtual method \<open>isMutable\<close>\<close>

text \<open>
  \<open>Expr::isMutable\<close> returns false; \<open>Variable\<close> forwards to the object its \<open>Binding\<close>
  member points to, \<open>ArrayAccess\<close> and \<open>Member\<close> return true, \<open>Binding\<close> and \<open>Register\<close>
  return their \<open>CanMutate\<close>. The call through \<open>Binding\<close> follows a pointer, so the call
  need not return: the result is \<open>None\<close> when the chain of variables never ends or when
  a pointer on the way is not the address of an object (undefined behaviour in C++).
\<close>

partial_function (option) isMutable :: "expr_store \<Rightarrow> ptr \<Rightarrow> bool option" where
  "isMutable h p =
     (case p of
        Ref a \<Rightarrow>
          (case h a of
             None \<Rightarrow> None
           | Some e \<Rightarrow>
               (case node e of
                  Variable name binding \<Rightarrow> isMutable h binding
                | ArrayAccess lhs rhs \<Rightarrow> Some True
                | Member source fieldName \<Rightarrow> Some True
                | Binding name init initReg body canMutate \<Rightarrow> Some canMutate
                | Register name alloca source canMutate \<Rightarrow> Some canMutate
                | _ \<Rightarrow> Some False))
      | _ \<Rightarrow> None)"

declare isMutable.simps [code]

subsection \<open>Constructors\<close>

text \<open>
  The base constructor \<open>Expr(): ThisType(NULL)\<close> runs first in every subclass
  constructor. A member that the constructor's initialiser list does not mention is
  \<open>Uninit\<close> when it is a raw pointer and empty when it is a vector.
\<close>

definition Number_new :: "32 word \<Rightarrow> Expr" where
  "Number_new val = \<lparr>ThisType = NULL, node = Number val\<rparr>"

definition StringLiteral_new :: "string \<Rightarrow> Expr" where
  "StringLiteral_new s = \<lparr>ThisType = NULL, node = StringLiteral s\<rparr>"

definition Variable_new :: "string \<Rightarrow> Expr" where
  "Variable_new name = \<lparr>ThisType = NULL, node = Variable name Uninit\<rparr>"

definition Not_new :: "addr \<Rightarrow> Expr" where
  "Not_new expr = \<lparr>ThisType = NULL, node = Not (Ref expr)\<rparr>"

definition Add_new :: "addr \<Rightarrow> addr \<Rightarrow> Expr" where
  "Add_new lhs rhs = \<lparr>ThisType = NULL, node = Add (Ref lhs) (Ref rhs)\<rparr>"

definition Subtract_new :: "addr \<Rightarrow> addr \<Rightarrow> Expr" where
  "Subtract_new lhs rhs = \<lparr>ThisType = NULL, node = Subtract (Ref lhs) (Ref rhs)\<rparr>"

definition Multiply_new :: "addr \<Rightarrow> addr \<Rightarrow> Expr" where
  "Multiply_new lhs rhs = \<lparr>ThisType = NULL, node = Multiply (Ref lhs) (Ref rhs)\<rparr>"

definition Eq_new :: "addr \<Rightarrow> addr \<Rightarrow> Expr" where
  "Eq_new lhs rhs = \<lparr>ThisType = NULL, node = Eq (Ref lhs) (Ref rhs)\<rparr>"

definition JoinString_new :: "addr \<Rightarrow> addr \<Rightarrow> Expr" where
  "JoinString_new lhs rhs = \<lparr>ThisType = NULL, node = JoinString (Ref lhs) (Ref rhs)\<rparr>"

definition Seq_new :: "addr \<Rightarrow> addr \<Rightarrow> Expr" where
  "Seq_new lhs rhs = \<lparr>ThisType = NULL, node = Seq (Ref lhs) (Ref rhs)\<rparr>"

definition Assign_new :: "addr \<Rightarrow> addr \<Rightarrow> Expr" where
  "Assign_new lhs rhs = \<lparr>ThisType = NULL, node = Assign (Ref lhs) (Ref rhs)\<rparr>"

definition ArrayAccess_new :: "addr \<Rightarrow> addr \<Rightarrow> Expr" where
  "ArrayAccess_new lhs rhs = \<lparr>ThisType = NULL, node = ArrayAccess (Ref lhs) (Ref rhs)\<rparr>"

definition Member_new :: "addr \<Rightarrow> string \<Rightarrow> Expr" where
  "Member_new source fieldName = \<lparr>ThisType = NULL, node = Member (Ref source) fieldName\<rparr>"

text \<open>\<open>Binding\<close>: members \<open>Name\<close>, \<open>Init\<close>, \<open>InitReg\<close>, \<open>Body\<close>, \<open>CanMutate\<close>.\<close>

definition Binding_new :: "string \<Rightarrow> addr \<Rightarrow> bool \<Rightarrow> Expr" where
  "Binding_new name init canMutate =
     \<lparr>ThisType = NULL, node = Binding name (Ref init) NULL NULL canMutate\<rparr>"

definition setBody :: "addr \<Rightarrow> Expr \<Rightarrow> Expr" where
  "setBody b e =
     (case node e of
        Binding name init initReg body canMutate \<Rightarrow>
          e\<lparr>node := Binding name init initReg (Ref b) canMutate\<rparr>
      | _ \<Rightarrow> e)"

definition If_new :: "addr \<Rightarrow> addr \<Rightarrow> addr \<Rightarrow> Expr" where
  "If_new cond then' el = \<lparr>ThisType = NULL, node = If (Ref cond) (Ref then') (Ref el)\<rparr>"

definition While_new :: "addr \<Rightarrow> addr \<Rightarrow> Expr" where
  "While_new cond body = \<lparr>ThisType = NULL, node = While (Ref cond) (Ref body)\<rparr>"

text \<open>\<open>Call\<close>: members \<open>CalleeName\<close>, \<open>Callee\<close>, \<open>Args\<close>.\<close>

definition Call_new :: "string \<Rightarrow> ptr list \<Rightarrow> Expr" where
  "Call_new calleeName args = \<lparr>ThisType = NULL, node = Call calleeName Uninit args\<rparr>"

text \<open>\<open>Register\<close>: members \<open>Name\<close>, \<open>Alloca\<close>, \<open>Source\<close>, \<open>CanMutate\<close>.\<close>

definition Register_new :: "string \<Rightarrow> ptr \<Rightarrow> bool \<Rightarrow> Expr" where
  "Register_new name expr canMutate =
     \<lparr>ThisType = NULL, node = Register name NULL expr canMutate\<rparr>"

text \<open>
  \<open>RegisterFunArg(SType *ty): Alloca(NULL) { ThisType = ty; }\<close>: the body assigns the
  resolved-type slot after the base constructor has cleared it.
\<close>

definition RegisterFunArg_new :: "ptr \<Rightarrow> Expr" where
  "RegisterFunArg_new ty =
     (let e = \<lparr>ThisType = NULL, node = RegisterFunArg NULL\<rparr> in e\<lparr>ThisType := ty\<rparr>)"

text \<open>
  The constructors' loops have the form
  \<^verbatim>\<open>for (unsigned i=0, e=v.size(); i != e; ++i) { ... v[i] ... }\<close>
  The counter and the bound are \<open>unsigned\<close>, 32 bits: the bound is the vector's size
  modulo \<open>2^32\<close>, and the loop runs until the counter meets it. Each step brings the
  counter closer to the bound, which is why these loops terminate.
\<close>

lemma unsigned_loop_step:
  fixes i e :: "32 word"
  assumes "i \<noteq> e"
  shows "unat (e - i) = Suc (unat (e - (i + 1)))"
proof -
  have nz: "e - i \<noteq> 0"
    using assms by simp
  then have pos: "0 < unat (e - i)"
    by (simp add: unat_gt_0)
  have eq: "e - (i + 1) = e - i - 1"
    by simp
  have "unat (e - i - 1) = unat (e - i) - 1"
    using nz by (rule unat_minus_one)
  then have "unat (e - (i + 1)) = unat (e - i) - 1"
    by (simp only: eq)
  with pos show ?thesis
    by simp
qed

text \<open>
  The loop of the first \<open>Func\<close> constructor, from the counter \<open>i\<close> to the bound \<open>e\<close>:
  \<^verbatim>\<open>Args.push_back("$"); ArgSTypeNames.push_back(argstys[i]);\<close>
  The index stays below the vector's size, since the bound is at most the size.
\<close>

function Func_args_loop :: "ptr list \<Rightarrow> 32 word \<Rightarrow> 32 word \<Rightarrow> FuncFields \<Rightarrow> FuncFields" where
  "Func_args_loop argstys i e f =
     (if i \<noteq> e
      then Func_args_loop argstys (i + 1) e
             (f\<lparr>Args := Args f @ [''$''],
                ArgSTypeNames := ArgSTypeNames f @ [argstys ! unat i]\<rparr>)
      else f)"
  by pat_completeness auto
termination
  by (relation "measure (\<lambda>(argstys, i, e, f). unat (e - i))")
     (simp_all add: unsigned_loop_step)

text \<open>
  The loop of the second constructor:
  \<^verbatim>\<open>Args.push_back(args[i].first); ArgSTypeNames.push_back(args[i].second);\<close>
\<close>

function Func_pairs_loop ::
  "(string \<times> ptr) list \<Rightarrow> 32 word \<Rightarrow> 32 word \<Rightarrow> FuncFields \<Rightarrow> FuncFields" where
  "Func_pairs_loop args i e f =
     (if i \<noteq> e
      then Func_pairs_loop args (i + 1) e
             (f\<lparr>Args := Args f @ [fst (args ! unat i)],
                ArgSTypeNames := ArgSTypeNames f @ [snd (args ! unat i)]\<rparr>)
      else f)"
  by pat_completeness auto
termination
  by (relation "measure (\<lambda>(args, i, e, f). unat (e - i))")
     (simp_all add: unsigned_loop_step)

declare Func_args_loop.simps [simp del]

declare Func_pairs_loop.simps [simp del]

text \<open>
  \<open>Func(name, argstys, retsty, generics)\<close>, the constructor \<open>Extern\<close> delegates to.
\<close>

definition Func_fields1 :: "string \<Rightarrow> ptr list \<Rightarrow> addr \<Rightarrow> ptr list \<Rightarrow> FuncFields" where
  "Func_fields1 name argstys retsty generics =
     Func_args_loop argstys 0 (of_nat (length argstys))
       \<lparr>Name = name, Generics = generics, GenericPlaceholders = [],
        GenericsAreBound = Some False, Args = [], ArgSTypeNames = [], ArgSTypes = [],
        ArgRegs = [], RetSTypeName = Ref retsty, RetSType = NULL, Body = NULL,
        Context = NULL, Pureness = FunIO, functions' = Map.empty\<rparr>"

text \<open>\<open>Func(name, generics, args, retSType, body, context, purity)\<close>.\<close>

definition Func_fields2 ::
  "string \<Rightarrow> ptr list \<Rightarrow> (string \<times> ptr) list \<Rightarrow> addr \<Rightarrow> addr \<Rightarrow> ptr \<Rightarrow> Purity \<Rightarrow> FuncFields" where
  "Func_fields2 name generics args retSType body context purity =
     Func_pairs_loop args 0 (of_nat (length args))
       \<lparr>Name = name, Generics = generics, GenericPlaceholders = [],
        GenericsAreBound = Some False, Args = [], ArgSTypeNames = [], ArgSTypes = [],
        ArgRegs = [], RetSTypeName = Ref retSType, RetSType = NULL, Body = Ref body,
        Context = context, Pureness = purity, functions' = Map.empty\<rparr>"

text \<open>
  \<open>Func(name, args, argSTypes, retSType, body, context, purity)\<close>: no initialiser for
  \<open>GenericsAreBound\<close>, and \<open>Generics\<close> stays empty.
\<close>

definition Func_fields3 ::
  "string \<Rightarrow> string list \<Rightarrow> ptr list \<Rightarrow> ptr \<Rightarrow> addr \<Rightarrow> ptr \<Rightarrow> Purity \<Rightarrow> FuncFields" where
  "Func_fields3 name args argSTypes retSType body context purity =
     \<lparr>Name = name, Generics = [], GenericPlaceholders = [],
      GenericsAreBound = None, Args = args, ArgSTypeNames = argSTypes, ArgSTypes = [],
      ArgRegs = [], RetSTypeName = retSType, RetSType = NULL, Body = Ref body,
      Context = context, Pureness = purity, functions' = Map.empty\<rparr>"

definition Func_new1 :: "string \<Rightarrow> ptr list \<Rightarrow> addr \<Rightarrow> ptr list \<Rightarrow> Expr" where
  "Func_new1 name argstys retsty generics =
     \<lparr>ThisType = NULL, node = Func (Func_fields1 name argstys retsty generics)\<rparr>"

definition Func_new2 ::
  "string \<Rightarrow> ptr list \<Rightarrow> (string \<times> ptr) list \<Rightarrow> addr \<Rightarrow> addr \<Rightarrow> ptr \<Rightarrow> Purity \<Rightarrow> Expr" where
  "Func_new2 name generics args retSType body context purity =
     \<lparr>ThisType = NULL,
      node = Func (Func_fields2 name generics args retSType body context purity)\<rparr>"

definition Func_new3 ::
  "string \<Rightarrow> string list \<Rightarrow> ptr list \<Rightarrow> ptr \<Rightarrow> addr \<Rightarrow> ptr \<Rightarrow> Purity \<Rightarrow> Expr" where
  "Func_new3 name args argSTypes retSType body context purity =
     \<lparr>ThisType = NULL,
      node = Func (Func_fields3 name args argSTypes retSType body context purity)\<rparr>"

text \<open>
  \<open>Extern(name, generics, args, retSType): Func(name, args, retSType, generics) {}\<close>.
\<close>

definition Extern_new :: "string \<Rightarrow> ptr list \<Rightarrow> ptr list \<Rightarrow> addr \<Rightarrow> Expr" where
  "Extern_new name generics args retSType =
     \<lparr>ThisType = NULL, node = Extern (Func_fields1 name args retSType generics)\<rparr>"

text \<open>\<open>Closure\<close>: members \<open>FuncName\<close>, \<open>ActivationRecordNames\<close>, \<open>ActivationRecord\<close>, \<open>FuncRef\<close>.\<close>

definition Closure_new :: "string \<Rightarrow> string list \<Rightarrow> ptr \<Rightarrow> Expr" where
  "Closure_new name record' func = \<lparr>ThisType = NULL, node = Closure name record' [] func\<rparr>"

text \<open>\<open>Array\<close>: members \<open>STypeName\<close>, \<open>Contained\<close>, \<open>SizeExpr\<close>, \<open>DefaultValue\<close>.\<close>

definition Array_new :: "addr \<Rightarrow> addr \<Rightarrow> addr \<Rightarrow> Expr" where
  "Array_new stName sizeExpr defaultVal =
     \<lparr>ThisType = NULL, node = Array (Ref stName) Uninit (Ref sizeExpr) (Ref defaultVal)\<rparr>"

text \<open>
  \<open>Constructor\<close>: members \<open>STypeName\<close>, its own \<open>SStructType *ThisType\<close> (which hides the
  base member inside the class and has no initialiser), \<open>Params\<close>, \<open>Args\<close>.
\<close>

definition Constructor_new :: "string \<Rightarrow> ptr list \<Rightarrow> ptr list \<Rightarrow> Expr" where
  "Constructor_new stName params args =
     \<lparr>ThisType = NULL, node = Constructor stName Uninit params args\<rparr>"

subsection \<open>Accessors of the resolved-type slot\<close>

text \<open>\<open>getSType\<close> and \<open>setSType\<close> are virtual in \<open>Expr\<close> and no class overrides them.\<close>

definition getSType :: "Expr \<Rightarrow> ptr" where
  "getSType e = ThisType e"

definition setSType :: "ptr \<Rightarrow> Expr \<Rightarrow> Expr" where
  "setSType ty e = e\<lparr>ThisType := ty\<rparr>"

subsection \<open>\<open>Extern::Gen\<close>\<close>

text \<open>
  Modelled from the spec: the backend is not in ast.h. The spec's backend adapter
  declares a function with \<open>emitFunctionPrototype(name, argTypes, retType)\<close> or, for an
  externally linked one, \<open>emitExtern(name, signature)\<close>, both returning the function's
  handle, and gives a declared function its body with
  \<open>emitFunctionBody(handle, paramSlots, bodyValue)\<close>. The module keeps the declarations
  in the order they were made (a handle is the position of its declaration) and the
  bodies by handle.
\<close>

record Module =
  declared :: "(string \<times> ptr list \<times> ptr) list"
  bodies :: "ptr \<rightharpoonup> ptr list \<times> ptr"

definition emitExtern :: "string \<Rightarrow> ptr list \<times> ptr \<Rightarrow> Module \<Rightarrow> ptr \<times> Module" where
  "emitExtern name signature m =
     (Ref (length (declared m)),
      m\<lparr>declared := declared m @ [(name, fst signature, snd signature)]\<rparr>)"

definition emitFunctionBody :: "ptr \<Rightarrow> ptr list \<Rightarrow> ptr \<Rightarrow> Module \<Rightarrow> Module" where
  "emitFunctionBody handle paramSlots bodyValue m =
     m\<lparr>bodies := (bodies m)(handle \<mapsto> (paramSlots, bodyValue))\<rparr>"

text \<open>
  Modelled from the spec: the body of \<open>Extern::getFunction\<close> is not in ast.h. For the
  spec an \<open>Extern\<close> is the declaration of an externally linked function: its function
  is the one \<open>emitExtern\<close> declares from its name and its signature (the resolved
  argument types and return type).
\<close>

definition Extern_getFunction :: "FuncFields \<Rightarrow> Module \<Rightarrow> ptr \<times> Module" where
  "Extern_getFunction this m = emitExtern (Name this) (ArgSTypes this, RetSType this) m"

text \<open>
  \<open>virtual Value *Gen() { return getFunction(); }\<close>, on the members of the \<open>Extern\<close>
  object; the call is to \<open>Extern::getFunction\<close>.
\<close>

definition Extern_Gen :: "FuncFields \<Rightarrow> Module \<Rightarrow> ptr \<times> Module" where
  "Extern_Gen this m = Extern_getFunction this m"

subsection \<open>Types\<close>

text \<open>
  The members \<open>SStructType\<close> declares (\<open>SArray\<close> and \<open>SString\<close> inherit them). The last
  one is the class's \<open>Type *ThisType\<close>, the LLVM type, not the slot of an expression.
\<close>

record StructMembers =
  ElementNames :: "string list"
  ElementSTypeNames :: "ptr list"
  ElementSTypes :: "ptr list"
  ThisType' :: ptr

text \<open>
  One constructor per concrete class; the first argument is always \<open>SType::Name\<close>.
  \<open>SArray\<close> adds \<open>Contained\<close>; \<open>SString\<close> adds four members of its own that hide the
  inherited ones (two vectors of strings, a vector of types and a \<open>Type*\<close>);
  \<open>SFunctionType\<close> has \<open>Args\<close> and \<open>Ret\<close>; \<open>SPtr\<close> has \<open>Ref\<close>; \<open>SGenericType\<close> has
  \<open>id\<close> (an \<open>unsigned\<close>, 32 bits), \<open>Binding\<close> and \<open>Params\<close>. \<open>SPrimitive\<close> is abstract, and
  \<open>SUnionType\<close> declares no constructor and inherits pure virtual methods, so it has no
  objects.
\<close>

datatype SType =
    SVoid string
  | Int8 string
  | Int16 string
  | Int32 string
  | Int64 string
  | SBool string
  | SStructType string StructMembers
  | SArray string StructMembers ptr
  | SString string StructMembers ptr "string list" "string list" "ptr list" ptr
  | SFunctionType string "ptr list" ptr
  | SPtr string ptr
  | SGenericType string "32 word" ptr "ptr list"

text \<open>\<open>const string &getName() { return Name; }\<close>\<close>

fun getName :: "SType \<Rightarrow> string" where
  "getName (SVoid n) = n"
| "getName (Int8 n) = n"
| "getName (Int16 n) = n"
| "getName (Int32 n) = n"
| "getName (Int64 n) = n"
| "getName (SBool n) = n"
| "getName (SStructType n m) = n"
| "getName (SArray n m c) = n"
| "getName (SString n m c en et es tt) = n"
| "getName (SFunctionType n args ret) = n"
| "getName (SPtr n r) = n"
| "getName (SGenericType n i b ps) = n"

text \<open>
  \<open>SType *getContained() { return Contained; }\<close>, a method of \<open>SArray\<close> that \<open>SString\<close>
  inherits; no other class has it.
\<close>

fun getContained :: "SType \<Rightarrow> ptr option" where
  "getContained (SArray n m c) = Some c"
| "getContained (SString n m c en et es tt) = Some c"
| "getContained _ = None"

text \<open>The state of the type layer: the heap of type objects and the static variables.\<close>

record TypeState =
  objs :: "addr \<rightharpoonup> SType"
  brk :: addr
  Singleton :: ptr
  gid :: "32 word"

text \<open>
  At process start the heap is empty, the static pointer \<open>SString::Singleton\<close> is null
  and the function-local static \<open>gid\<close> of the \<open>SGenericType\<close> constructor is 0.
\<close>

definition TypeState_init :: TypeState where
  "TypeState_init = \<lparr>objs = Map.empty, brk = 0, Singleton = NULL, gid = 0\<rparr>"

text \<open>\<open>operator new\<close> hands out the next unused address; the constructor then fills it.\<close>

definition alloc :: "TypeState \<Rightarrow> addr \<times> TypeState" where
  "alloc st = (brk st, st\<lparr>brk := Suc (brk st)\<rparr>)"

definition store_obj :: "addr \<Rightarrow> SType \<Rightarrow> TypeState \<Rightarrow> TypeState" where
  "store_obj a t st = st\<lparr>objs := (objs st)(a \<mapsto> t)\<rparr>"

definition new_obj :: "SType \<Rightarrow> TypeState \<Rightarrow> addr \<times> TypeState" where
  "new_obj t st = (case alloc st of (a, st1) \<Rightarrow> (a, store_obj a t st1))"

subsection \<open>Constructors of the types\<close>

definition SVoid_new :: SType where
  "SVoid_new = SVoid ''Void''"

definition Int8_new :: SType where
  "Int8_new = Int8 ''Int8''"

definition Int16_new :: SType where
  "Int16_new = Int16 ''Int16''"

definition Int32_new :: SType where
  "Int32_new = Int32 ''Int32''"

definition Int64_new :: SType where
  "Int64_new = Int64 ''Int64''"

definition SBool_new :: SType where
  "SBool_new = SBool ''Bool''"

text \<open>\<open>SStructType(const string &name): SType(name), ThisType(NULL) {}\<close>\<close>

definition StructMembers_init :: StructMembers where
  "StructMembers_init =
     \<lparr>ElementNames = [], ElementSTypeNames = [], ElementSTypes = [], ThisType' = NULL\<rparr>"

definition SStructType_new :: "string \<Rightarrow> SType" where
  "SStructType_new name = SStructType name StructMembers_init"

text \<open>
  The loop of the second \<open>SStructType\<close> constructor, of the same form as the loops of
  \<open>Func\<close>:
  \<^verbatim>\<open>ElementNames.push_back(els[i].first); ElementSTypeNames.push_back(els[i].second);\<close>
\<close>

function SStructType_els_loop ::
  "(string \<times> ptr) list \<Rightarrow> 32 word \<Rightarrow> 32 word \<Rightarrow> StructMembers \<Rightarrow> StructMembers" where
  "SStructType_els_loop els i e m =
     (if i \<noteq> e
      then SStructType_els_loop els (i + 1) e
             (m\<lparr>ElementNames := ElementNames m @ [fst (els ! unat i)],
                ElementSTypeNames := ElementSTypeNames m @ [snd (els ! unat i)]\<rparr>)
      else m)"
  by pat_completeness auto
termination
  by (relation "measure (\<lambda>(els, i, e, m). unat (e - i))")
     (simp_all add: unsigned_loop_step)

declare SStructType_els_loop.simps [simp del]

definition SStructType_new2 :: "string \<Rightarrow> (string \<times> ptr) list \<Rightarrow> SType" where
  "SStructType_new2 name els =
     SStructType name (SStructType_els_loop els 0 (of_nat (length els)) StructMembers_init)"

text \<open>\<open>SArray(SType *ty): SStructType("Array"), Contained(ty) {}\<close>\<close>

definition SArray_new :: "ptr \<Rightarrow> SType" where
  "SArray_new ty = SArray ''Array'' StructMembers_init ty"

text \<open>
  \<open>SFunctionType(): SType("Function"), Ret(NULL) {}\<close> and
  \<open>SFunctionType(name, args, ret): SType(name), Args(args), Ret(ret) {}\<close>.
\<close>

definition SFunctionType_new0 :: SType where
  "SFunctionType_new0 = SFunctionType ''Function'' [] NULL"

definition SFunctionType_new :: "string \<Rightarrow> ptr list \<Rightarrow> ptr \<Rightarrow> SType" where
  "SFunctionType_new name args ret = SFunctionType name args ret"

text \<open>
  \<open>SPtr(SType *ref): SType("Ptr:" + ref->getName()), Ref(ref) {}\<close>: the constructor reads
  the name of the referenced object, so it needs that object; it is undefined (\<open>None\<close>)
  when \<open>ref\<close> is not the address of one.
\<close>

definition SPtr_new :: "ptr \<Rightarrow> TypeState \<Rightarrow> SType option" where
  "SPtr_new ref st =
     (case ref of
        Ref a \<Rightarrow>
          (case objs st a of
             None \<Rightarrow> None
           | Some t \<Rightarrow> Some (SPtr (''Ptr:'' @ getName t) ref))
      | _ \<Rightarrow> None)"

text \<open>
  The \<open>SGenericType\<close> constructor:
  \<^verbatim>\<open>: SType(name), Binding(NULL), Params(params) { static unsigned gid = 0; id = gid++; }\<close>
  The counter is an \<open>unsigned\<close>: the increment wraps around at \<open>2^32\<close>.
\<close>

definition SGenericType_new :: "string \<Rightarrow> ptr list \<Rightarrow> TypeState \<Rightarrow> SType \<times> TypeState" where
  "SGenericType_new name params st =
     (SGenericType name (gid st) NULL params, st\<lparr>gid := gid st + 1\<rparr>)"

text \<open>The private member \<open>id\<close> of a generic type (0 for the classes that have none).\<close>

fun SGenericType_id :: "SType \<Rightarrow> 32 word" where
  "SGenericType_id (SGenericType n i b ps) = i"
| "SGenericType_id _ = 0"

text \<open>
  A run of the process constructs generic types one after the other; the list has the
  constructor arguments of each, in the order of construction, and the result lists the
  objects in the same order.
\<close>

fun construct_generics ::
  "(string \<times> ptr list) list \<Rightarrow> TypeState \<Rightarrow> SType list \<times> TypeState" where
  "construct_generics [] st = ([], st)"
| "construct_generics (r # rs) st =
     (case SGenericType_new (fst r) (snd r) st of
        (t, st1) \<Rightarrow>
          (case construct_generics rs st1 of (ts, st2) \<Rightarrow> (t # ts, st2)))"

subsection \<open>\<open>SString\<close>\<close>

text \<open>
  \<^verbatim>\<open>SString(): SArray(new Int8()) { vector<string> x; map<string, SType*> y; Bind(x,y); }\<close>
  The object's own address is allocated before the constructor runs, the \<open>Int8\<close> during
  it. The four members \<open>SString\<close> declares get no initialiser: the vectors are empty and
  the pointer is \<open>Uninit\<close>.

  Modelled from the spec: the body of \<open>SArray::Bind\<close>, which this constructor calls, is
  not in ast.h. The spec gives an array the layout of a struct (a length and the element
  storage) and says that String is structurally \<open>Array<Int8>\<close>; \<open>Bind\<close> is therefore any
  function \<open>bind\<close> that fills in the inherited struct members and leaves \<open>Contained\<close>
  alone (\<open>Name\<close> is \<open>const\<close>).
\<close>

definition SString_ctor :: "(StructMembers \<Rightarrow> StructMembers) \<Rightarrow> addr \<Rightarrow> TypeState \<Rightarrow> TypeState" where
  "SString_ctor bind this st =
     (case new_obj Int8_new st of
        (a8, st1) \<Rightarrow>
          store_obj this
            (SString ''Array'' (bind StructMembers_init) (Ref a8) [] [] [] Uninit) st1)"

text \<open>
  Modelled from the spec: the body of \<open>SString::get\<close> is not in ast.h, which declares it
  beside the static member \<open>Singleton\<close>. The spec calls String a singleton: the first
  call constructs the instance and keeps its address in \<open>Singleton\<close>, and every call
  returns that address.
\<close>

definition SString_get :: "(StructMembers \<Rightarrow> StructMembers) \<Rightarrow> TypeState \<Rightarrow> ptr \<times> TypeState" where
  "SString_get bind st =
     (case Singleton st of
        NULL \<Rightarrow>
          (case alloc st of
             (a, st1) \<Rightarrow> (Ref a, (SString_ctor bind a st1)\<lparr>Singleton := Ref a\<rparr>))
      | p \<Rightarrow> (p, st))"

text \<open>The pointers that \<open>n\<close> calls in a row return, with the state after the last one.\<close>

fun SString_get_calls ::
  "(StructMembers \<Rightarrow> StructMembers) \<Rightarrow> nat \<Rightarrow> TypeState \<Rightarrow> ptr list \<times> TypeState" where
  "SString_get_calls bind 0 st = ([], st)"
| "SString_get_calls bind (Suc n) st =
     (case SString_get bind st of
        (p, st1) \<Rightarrow>
          (case SString_get_calls bind n st1 of (ps, st2) \<Rightarrow> (p # ps, st2)))"

subsection \<open>Virtual method \<open>ParamRebind\<close>\<close>

text \<open>
  \<open>SType::ParamRebind\<close> is \<open>{ return this; }\<close>. \<open>SArray\<close> and \<open>SFunctionType\<close> override it
  with bodies that are not in ast.h: they are the parameters \<open>SArray_ParamRebind\<close> and
  \<open>SFunctionType_ParamRebind\<close>, functions of the object's address, the vector and the
  state. \<open>SString\<close> overrides its parent's method with \<open>{ return this; }\<close> again. The
  call is undefined (\<open>None\<close>) when \<open>this\<close> is not the address of an object.
\<close>

definition ParamRebind ::
  "(addr \<Rightarrow> ptr list \<Rightarrow> TypeState \<Rightarrow> ptr \<times> TypeState) \<Rightarrow>
   (addr \<Rightarrow> ptr list \<Rightarrow> TypeState \<Rightarrow> ptr \<times> TypeState) \<Rightarrow>
   addr \<Rightarrow> ptr list \<Rightarrow> TypeState \<Rightarrow> (ptr \<times> TypeState) option" where
  "ParamRebind SArray_ParamRebind SFunctionType_ParamRebind this prms st =
     (case objs st this of
        None \<Rightarrow> None
      | Some t \<Rightarrow>
          (case t of
             SArray n m c \<Rightarrow> Some (SArray_ParamRebind this prms st)
           | SString n m c en et es tt \<Rightarrow> Some (Ref this, st)
           | SFunctionType n args ret \<Rightarrow> Some (SFunctionType_ParamRebind this prms st)
           | _ \<Rightarrow> Some (Ref this, st)))"

text \<open>The classes whose \<open>ParamRebind\<close> is one of the two bodies outside ast.h.\<close>

fun overrides_ParamRebind :: "SType \<Rightarrow> bool" where
  "overrides_ParamRebind (SArray n m c) = True"
| "overrides_ParamRebind (SFunctionType n args ret) = True"
| "overrides_ParamRebind _ = False"

subsection \<open>Structural equality of types\<close>

text \<open>
  Modelled from the spec: ast.h declares no comparison of types. The spec's type layer
  compares structs by name and arrays, functions, pointers and generics by structure
  (generics by \<open>id\<close>); two primitives are equal when they are of the same class. An
  \<open>SString\<close> is an \<open>SArray\<close> (its subclass), so the rule for arrays covers it.
\<close>

inductive struct_eq :: "(addr \<rightharpoonup> SType) \<Rightarrow> ptr \<Rightarrow> ptr \<Rightarrow> bool" for h where
  eq_Void: "h a = Some (SVoid n) \<Longrightarrow> h b = Some (SVoid n') \<Longrightarrow> struct_eq h (Ref a) (Ref b)"
| eq_Int8: "h a = Some (Int8 n) \<Longrightarrow> h b = Some (Int8 n') \<Longrightarrow> struct_eq h (Ref a) (Ref b)"
| eq_Int16: "h a = Some (Int16 n) \<Longrightarrow> h b = Some (Int16 n') \<Longrightarrow> struct_eq h (Ref a) (Ref b)"
| eq_Int32: "h a = Some (Int32 n) \<Longrightarrow> h b = Some (Int32 n') \<Longrightarrow> struct_eq h (Ref a) (Ref b)"
| eq_Int64: "h a = Some (Int64 n) \<Longrightarrow> h b = Some (Int64 n') \<Longrightarrow> struct_eq h (Ref a) (Ref b)"
| eq_Bool: "h a = Some (SBool n) \<Longrightarrow> h b = Some (SBool n') \<Longrightarrow> struct_eq h (Ref a) (Ref b)"
| eq_Struct:
    "h a = Some (SStructType n m) \<Longrightarrow> h b = Some (SStructType n m') \<Longrightarrow>
     struct_eq h (Ref a) (Ref b)"
| eq_Array:
    "h a = Some x \<Longrightarrow> h b = Some y \<Longrightarrow> getContained x = Some c \<Longrightarrow>
     getContained y = Some c' \<Longrightarrow> struct_eq h c c' \<Longrightarrow> struct_eq h (Ref a) (Ref b)"
| eq_Function:
    "h a = Some (SFunctionType n args ret) \<Longrightarrow> h b = Some (SFunctionType n' args' ret') \<Longrightarrow>
     list_all2 (struct_eq h) args args' \<Longrightarrow> struct_eq h ret ret' \<Longrightarrow>
     struct_eq h (Ref a) (Ref b)"
| eq_Ptr:
    "h a = Some (SPtr n r) \<Longrightarrow> h b = Some (SPtr n' r') \<Longrightarrow> struct_eq h r r' \<Longrightarrow>
     struct_eq h (Ref a) (Ref b)"
| eq_Generic:
    "h a = Some (SGenericType n i bnd ps) \<Longrightarrow> h b = Some (SGenericType n' i bnd' ps') \<Longrightarrow>
     struct_eq h (Ref a) (Ref b)"

code_pred (modes: i \<Rightarrow> i \<Rightarrow> i \<Rightarrow> bool) struct_eq .

subsection \<open>The specialization table \<open>Func::functions\<close>\<close>

text \<open>
  \<open>map<vector<SType*>,Function*> functions\<close>: a \<open>std::map\<close> orders its keys with
  \<open>operator<\<close>, which on vectors of pointers compares the pointer values position by
  position. Two keys are the same key exactly when they hold the same addresses, so the
  table is a partial map on lists of pointers. \<open>functions_find\<close> is \<open>functions.find(key)\<close>
  and \<open>functions_store\<close> is \<open>functions[key] = fn\<close>.
\<close>

definition functions_find :: "FuncFields \<Rightarrow> ptr list \<Rightarrow> ptr option" where
  "functions_find f key = functions' f key"

definition functions_store :: "ptr list \<Rightarrow> ptr \<Rightarrow> FuncFields \<Rightarrow> FuncFields" where
  "functions_store key fn f = f\<lparr>functions' := (functions' f)(key \<mapsto> fn)\<rparr>"

subsection \<open>Type inference of \<open>Assign\<close>\<close>

text \<open>
  The members of \<open>TypeInferer\<close>: \<open>multimap<Expr*, Expr*> eqns\<close>, \<open>map<Expr*, SType*> tys\<close>
  and the two vectors of deferred nodes.
\<close>

record TypeInferer =
  eqns :: "(ptr \<times> ptr) list"
  tys :: "ptr \<rightharpoonup> ptr"
  members :: "ptr list"
  arrayAccesses :: "ptr list"

text \<open>The kinds of error of the spec's taxonomy.\<close>

datatype error =
    UnboundName string
  | TypeMismatch
  | CannotInferMemberType
  | CannotInferArrayAccess
  | UnknownField string
  | AssignToImmutable
  | UnboundedGenericRecursion
  | ArityMismatch

text \<open>
  Modelled from the spec: the body of \<open>TypeInferer::eqn\<close> is not in ast.h. The spec
  stores the equalities in a multimap: \<open>eqn(lhs, rhs)\<close> adds the pair.
\<close>

definition eqn :: "ptr \<Rightarrow> ptr \<Rightarrow> TypeInferer \<Rightarrow> TypeInferer" where
  "eqn lhs rhs ti = ti\<lparr>eqns := eqns ti @ [(lhs, rhs)]\<rparr>"

text \<open>
  Modelled from the spec: the body of \<open>Assign::TypeInfer\<close> is not in ast.h. The spec's
  rule is: \<open>Assign(l, r)\<close> contributes \<open>this = l = r\<close> and requires \<open>l.isMutable()\<close>, else
  \<open>AssignToImmutable\<close>. This is the contribution of the \<open>Assign\<close> node itself: the call
  of the virtual \<open>isMutable\<close> on \<open>LHS\<close> (from ast.h), then the two equalities. The result
  is \<open>None\<close> when \<open>this\<close> is not an \<open>Assign\<close> object or the call of \<open>isMutable\<close> does not
  return; an error is \<open>Inl\<close>.
\<close>

definition Assign_TypeInfer ::
  "expr_store \<Rightarrow> addr \<Rightarrow> TypeInferer \<Rightarrow> (error + TypeInferer) option" where
  "Assign_TypeInfer h this ti =
     (case h this of
        None \<Rightarrow> None
      | Some e \<Rightarrow>
          (case node e of
             Assign lhs rhs \<Rightarrow>
               (case isMutable h lhs of
                  None \<Rightarrow> None
                | Some m \<Rightarrow>
                    if m then Some (Inr (eqn lhs rhs (eqn (Ref this) lhs ti)))
                    else Some (Inl AssignToImmutable))
           | _ \<Rightarrow> None))"

subsection \<open>Matching a signature against a call site\<close>

text \<open>
  Modelled from the spec: the bodies of \<open>SFunctionType::MatchGenerics\<close> and of the
  substitution of its result are not in ast.h. The spec describes both on the structure
  of types, so a type is taken here as the term of the spec's type table: \<open>Void\<close>, the
  primitives, \<open>Array<T>\<close>, a struct (nominal: its name), \<open>Function(args, ret)\<close>, \<open>Ptr(T)\<close>
  and \<open>Generic(name, id)\<close>, an unbound unification variable. String has no case of its
  own: its structure is \<open>Array<Int8>\<close>.
\<close>

datatype ty =
    TyVoid
  | TyInt8
  | TyInt16
  | TyInt32
  | TyInt64
  | TyBool
  | TyArray ty
  | TyStruct string
  | TyFunction "ty list" ty
  | TyPtr ty
  | TyGeneric string nat

text \<open>
  Modelled from the spec: walk the signature and the site types in lock-step; when the
  signature position is a \<open>Generic\<close>, record its binding (the generic's \<open>id\<close> with the
  site's type, appended to the bindings found so far); otherwise require structural
  equality and recurse. A mismatch is \<open>None\<close>.
\<close>

fun match_type :: "ty \<Rightarrow> ty \<Rightarrow> (nat \<times> ty) list \<Rightarrow> (nat \<times> ty) list option"
  and match_types :: "ty list \<Rightarrow> ty list \<Rightarrow> (nat \<times> ty) list \<Rightarrow> (nat \<times> ty) list option" where
  "match_type (TyGeneric n i) t bs = Some (bs @ [(i, t)])"
| "match_type (TyArray s) (TyArray t) bs = match_type s t bs"
| "match_type (TyPtr s) (TyPtr t) bs = match_type s t bs"
| "match_type (TyFunction ss r) (TyFunction ts r') bs =
     (case match_types ss ts bs of None \<Rightarrow> None | Some bs1 \<Rightarrow> match_type r r' bs1)"
| "match_type s t bs = (if s = t then Some bs else None)"
| "match_types [] [] bs = Some bs"
| "match_types (s # ss) (t # ts) bs =
     (case match_type s t bs of None \<Rightarrow> None | Some bs1 \<Rightarrow> match_types ss ts bs1)"
| "match_types _ _ bs = None"

text \<open>
  Modelled from the spec: \<open>MatchGenerics(callTypes, genericBindings)\<close> on the signature
  with arguments \<open>args\<close> matches the arguments against the site's types, starting with
  no binding.
\<close>

definition MatchGenerics :: "ty list \<Rightarrow> ty list \<Rightarrow> (nat \<times> ty) list option" where
  "MatchGenerics args callTypes = match_types args callTypes []"

text \<open>
  Modelled from the spec: applying bindings to a type replaces every generic that has a
  binding by the type bound to it.
\<close>

fun apply_bindings :: "(nat \<times> ty) list \<Rightarrow> ty \<Rightarrow> ty" where
  "apply_bindings bs (TyGeneric n i) =
     (case map_of bs i of None \<Rightarrow> TyGeneric n i | Some t \<Rightarrow> t)"
| "apply_bindings bs (TyArray t) = TyArray (apply_bindings bs t)"
| "apply_bindings bs (TyPtr t) = TyPtr (apply_bindings bs t)"
| "apply_bindings bs (TyFunction ts r) =
     TyFunction (map (apply_bindings bs) ts) (apply_bindings bs r)"
| "apply_bindings bs t = t"

text \<open>
  A call site matches a signature when its types are an instance of the signature's:
  the signature with a type \<open>\<sigma> i\<close> in place of every generic \<open>i\<close>. This is what type
  inference leaves at the call sites of a well-typed program.
\<close>

fun instance_of :: "(nat \<Rightarrow> ty) \<Rightarrow> ty \<Rightarrow> ty" where
  "instance_of \<sigma> (TyGeneric n i) = \<sigma> i"
| "instance_of \<sigma> (TyArray t) = TyArray (instance_of \<sigma> t)"
| "instance_of \<sigma> (TyPtr t) = TyPtr (instance_of \<sigma> t)"
| "instance_of \<sigma> (TyFunction ts r) = TyFunction (map (instance_of \<sigma>) ts) (instance_of \<sigma> r)"
| "instance_of \<sigma> t = t"

text \<open>The ids of the generics of a type, in the order of the walk.\<close>

fun generics_of :: "ty \<Rightarrow> nat list" where
  "generics_of (TyGeneric n i) = [i]"
| "generics_of (TyArray t) = generics_of t"
| "generics_of (TyPtr t) = generics_of t"
| "generics_of (TyFunction ts r) = concat (map generics_of ts) @ generics_of r"
| "generics_of t = []"

subsection \<open>The parser's tokens\<close>

text \<open>\<open>enum Token\<close> of namespace \<open>Parser\<close>, with the value the header gives each enumerator.\<close>

datatype Token =
    tok_eof
  | tok_def
  | tok_io
  | tok_imp
  | tok_var
  | tok_val
  | tok_binary
  | tok_unary
  | tok_identifier
  | tok_number

fun Token_value :: "Token \<Rightarrow> int" where
  "Token_value tok_eof = -1"
| "Token_value tok_def = -2"
| "Token_value tok_io = -3"
| "Token_value tok_imp = -4"
| "Token_value tok_var = -5"
| "Token_value tok_val = -6"
| "Token_value tok_binary = -7"
| "Token_value tok_unary = -8"
| "Token_value tok_identifier = -9"
| "Token_value tok_number = -10"

subsection \<open>Example programs\<close>

text \<open>
  The store of the spec's boundary example \<open>val x = 1; x := 2\<close> (\<open>canMutate\<close> false) and
  of \<open>var x = 1; x := 2\<close> (\<open>canMutate\<close> true) after binding: the \<open>Binding\<close> at address 0
  has the initialiser at 1 and the body at 2, the assignment; the assignment's left-hand
  side at 3 is the variable \<open>x\<close>, which points back to the \<open>Binding\<close>.
\<close>

definition binding_x_store :: "bool \<Rightarrow> expr_store" where
  "binding_x_store canMutate =
     [0 \<mapsto> setBody 2 (Binding_new ''x'' 1 canMutate),
      1 \<mapsto> Number_new 1,
      2 \<mapsto> Assign_new 3 4,
      3 \<mapsto> (Variable_new ''x'')\<lparr>node := Variable ''x'' (Ref 0)\<rparr>,
      4 \<mapsto> Number_new 2]"

text \<open>
  A container bound by \<open>val\<close>: \<open>val c = P(1); c.f := 2; c[1] := 2\<close>. The \<open>Binding\<close> is at
  0, the variable \<open>c\<close> at 6; the assignment at 3 has the member \<open>c.f\<close> (at 4) on its left
  and the assignment at 7 the array element \<open>c[1]\<close> (at 8).
\<close>

definition val_container_store :: expr_store where
  "val_container_store =
     [0 \<mapsto> setBody 2 (Binding_new ''c'' 1 False),
      1 \<mapsto> Constructor_new ''P'' [] [Ref 5],
      2 \<mapsto> Seq_new 3 7,
      3 \<mapsto> Assign_new 4 9,
      4 \<mapsto> Member_new 6 ''f'',
      5 \<mapsto> Number_new 1,
      6 \<mapsto> (Variable_new ''c'')\<lparr>node := Variable ''c'' (Ref 0)\<rparr>,
      7 \<mapsto> Assign_new 8 9,
      8 \<mapsto> ArrayAccess_new 6 5,
      9 \<mapsto> Number_new 2]"

text \<open>A \<open>TypeInferer\<close> as its implicit default constructor leaves it: all containers empty.\<close>

definition TypeInferer_init :: TypeInferer where
  "TypeInferer_init = \<lparr>eqns = [], tys = Map.empty, members = [], arrayAccesses = []\<rparr>"

text \<open>\<open>new SArray(new Int8())\<close>: a fresh \<open>Array<Int8>\<close>, the argument allocated first.\<close>

definition new_Array_Int8 :: "TypeState \<Rightarrow> addr \<times> TypeState" where
  "new_Array_Int8 st =
     (case new_obj Int8_new st of (a8, st1) \<Rightarrow> new_obj (SArray_new (Ref a8)) st1)"

text \<open>
  Two uses of the type \<open>Array<Int32>\<close>: the \<open>Int32\<close> object at address 0, then two
  \<open>new SArray(ty)\<close> of it, at addresses 1 and 2.
\<close>

definition two_arrays_state :: TypeState where
  "two_arrays_state =
     snd (new_obj (SArray_new (Ref 0))
       (snd (new_obj (SArray_new (Ref 0))
         (snd (new_obj Int32_new TypeState_init)))))"

text \<open>
  The members of the generic function \<open>def id<T>(x:T) -> T\<close> as the second constructor
  of \<open>Func\<close> builds them (its placeholders and body are at addresses of their own
  stores).
\<close>

definition id_func :: FuncFields where
  "id_func = Func_fields2 ''id'' [Ref 0] [(''x'', Ref 0)] 0 0 NULL Pure"

section \<open>Properties\<close>

subsection \<open>Mutability of an assignment's left-hand side\<close>

text \<open>One step of the virtual call, for each class that matters below.\<close>

lemma isMutable_Variable:
  "h a = Some e \<Longrightarrow> node e = Variable x b \<Longrightarrow> isMutable h (Ref a) = isMutable h b"
  by (subst isMutable.simps) simp

lemma isMutable_Binding:
  "h a = Some e \<Longrightarrow> node e = Binding x i r b c \<Longrightarrow> isMutable h (Ref a) = Some c"
  by (subst isMutable.simps) simp

lemma isMutable_Member:
  "h a = Some e \<Longrightarrow> node e = Member s f \<Longrightarrow> isMutable h (Ref a) = Some True"
  by (subst isMutable.simps) simp

lemma isMutable_ArrayAccess:
  "h a = Some e \<Longrightarrow> node e = ArrayAccess l r \<Longrightarrow> isMutable h (Ref a) = Some True"
  by (subst isMutable.simps) simp

lemma Assign_TypeInfer_Assign:
  "h this = Some e \<Longrightarrow> node e = Assign lhs rhs \<Longrightarrow> isMutable h lhs = Some m \<Longrightarrow>
   Assign_TypeInfer h this ti =
     Some (if m then Inr (eqn lhs rhs (eqn (Ref this) lhs ti)) else Inl AssignToImmutable)"
  by (simp add: Assign_TypeInfer_def)

lemma binding_x_store_simps:
  "binding_x_store c 0 = Some \<lparr>ThisType = NULL, node = Binding ''x'' (Ref 1) NULL (Ref 2) c\<rparr>"
  "binding_x_store c 2 = Some \<lparr>ThisType = NULL, node = Assign (Ref 3) (Ref 4)\<rparr>"
  "binding_x_store c 3 = Some \<lparr>ThisType = NULL, node = Variable ''x'' (Ref 0)\<rparr>"
  by (simp_all add: binding_x_store_def setBody_def Binding_new_def Assign_new_def Variable_new_def)

text \<open>
  Claim C1. Let the left-hand side of an \<open>Assign\<close> be a \<open>Variable\<close> whose \<open>Binding\<close>
  member points to a \<open>Binding\<close> object declared with \<open>CanMutate = canMutate\<close>. Then the
  variable's \<open>isMutable()\<close> is that of the object it is bound to, namely \<open>canMutate\<close>;
  type inference of the assignment returns \<open>AssignToImmutable\<close> exactly when
  \<open>canMutate\<close> is false (a \<open>val\<close>); and when it is true (a \<open>var\<close>) the assignment is
  accepted and its type is equated with that of the variable (\<open>this = l\<close>) and the
  variable's with the right-hand side's (\<open>l = r\<close>).
\<close>

theorem Assign_Variable_Binding_mutability:
  assumes "h this = Some e" and "node e = Assign (Ref l) r"
    and "h l = Some v" and "node v = Variable x (Ref b)"
    and "h b = Some d" and "node d = Binding y init initReg body canMutate"
  shows "isMutable h (Ref l) = isMutable h (Ref b) \<and>
         isMutable h (Ref l) = Some canMutate \<and>
         (Assign_TypeInfer h this ti = Some (Inl AssignToImmutable)) = (\<not> canMutate) \<and>
         (canMutate \<longrightarrow>
            Assign_TypeInfer h this ti = Some (Inr (eqn (Ref l) r (eqn (Ref this) (Ref l) ti))))"
proof -
  have var: "isMutable h (Ref l) = isMutable h (Ref b)"
    using assms(3,4) by (rule isMutable_Variable)
  have def: "isMutable h (Ref b) = Some canMutate"
    using assms(5,6) by (rule isMutable_Binding)
  have lhs: "isMutable h (Ref l) = Some canMutate"
    using var def by simp
  have res: "Assign_TypeInfer h this ti =
      Some (if canMutate then Inr (eqn (Ref l) r (eqn (Ref this) (Ref l) ti))
            else Inl AssignToImmutable)"
    using assms(1,2) lhs by (rule Assign_TypeInfer_Assign)
  show ?thesis
    using var lhs res by simp
qed

text \<open>
  The spec's two programs: \<open>val x = 1; x := 2\<close> is rejected, \<open>var x = 1; x := 2\<close> is
  accepted with the two equalities recorded.
\<close>

theorem Assign_Variable_Binding_mutability_witness:
  "isMutable (binding_x_store False) (Ref 3) = Some False \<and>
   Assign_TypeInfer (binding_x_store False) 2 TypeInferer_init = Some (Inl AssignToImmutable) \<and>
   isMutable (binding_x_store True) (Ref 3) = Some True \<and>
   Assign_TypeInfer (binding_x_store True) 2 TypeInferer_init =
     Some (Inr (TypeInferer_init\<lparr>eqns := [(Ref 2, Ref 3), (Ref 3, Ref 4)]\<rparr>))"
  using Assign_Variable_Binding_mutability
          [of "binding_x_store False" 2 _ 3 "Ref 4" _ "''x''" 0 _ "''x''" "Ref 1" NULL "Ref 2"
              False TypeInferer_init,
           OF binding_x_store_simps(2) _ binding_x_store_simps(3) _ binding_x_store_simps(1),
           THEN conjunct2]
        Assign_Variable_Binding_mutability
          [of "binding_x_store True" 2 _ 3 "Ref 4" _ "''x''" 0 _ "''x''" "Ref 1" NULL "Ref 2"
              True TypeInferer_init,
           OF binding_x_store_simps(2) _ binding_x_store_simps(3) _ binding_x_store_simps(1),
           THEN conjunct2]
  by (simp add: eqn_def TypeInferer_init_def)

lemma val_container_store_simps:
  "val_container_store 0 = Some \<lparr>ThisType = NULL, node = Binding ''c'' (Ref 1) NULL (Ref 2) False\<rparr>"
  "val_container_store 3 = Some \<lparr>ThisType = NULL, node = Assign (Ref 4) (Ref 9)\<rparr>"
  "val_container_store 4 = Some \<lparr>ThisType = NULL, node = Member (Ref 6) ''f''\<rparr>"
  "val_container_store 6 = Some \<lparr>ThisType = NULL, node = Variable ''c'' (Ref 0)\<rparr>"
  "val_container_store 7 = Some \<lparr>ThisType = NULL, node = Assign (Ref 8) (Ref 9)\<rparr>"
  "val_container_store 8 = Some \<lparr>ThisType = NULL, node = ArrayAccess (Ref 6) (Ref 5)\<rparr>"
  by (simp_all add: val_container_store_def setBody_def Binding_new_def Assign_new_def
        Variable_new_def Member_new_def ArrayAccess_new_def)

text \<open>
  Claim C3. For every \<open>Member\<close> and every \<open>ArrayAccess\<close> object, \<open>isMutable()\<close> returns
  true, whatever its source expression is (nothing is assumed about \<open>source\<close> or \<open>lhs\<close>).
  Consequently type inference of an \<open>Assign\<close> whose left-hand side is such an object
  never returns \<open>AssignToImmutable\<close>: it accepts the assignment.
\<close>

theorem Member_ArrayAccess_always_mutable:
  assumes "h l = Some e"
    and "node e = Member source fieldName \<or> node e = ArrayAccess lhs rhs"
  shows "isMutable h (Ref l) = Some True \<and>
         (\<forall>this a r ti. h this = Some a \<and> node a = Assign (Ref l) r \<longrightarrow>
            Assign_TypeInfer h this ti \<noteq> Some (Inl AssignToImmutable) \<and>
            Assign_TypeInfer h this ti = Some (Inr (eqn (Ref l) r (eqn (Ref this) (Ref l) ti))))"
proof -
  have mut: "isMutable h (Ref l) = Some True"
    using assms isMutable_Member isMutable_ArrayAccess by blast
  have "Assign_TypeInfer h this ti = Some (Inr (eqn (Ref l) r (eqn (Ref this) (Ref l) ti)))"
    if "h this = Some a" and "node a = Assign (Ref l) r" for this a r ti
    using Assign_TypeInfer_Assign [OF that mut] by simp
  with mut show ?thesis by simp
qed

text \<open>
  The container \<open>c\<close> is bound by \<open>val\<close>: the variable \<open>c\<close> is immutable, and both
  \<open>c.f := 2\<close> and \<open>c[1] := 2\<close> are accepted.
\<close>

theorem Member_ArrayAccess_always_mutable_witness:
  "isMutable val_container_store (Ref 6) = Some False \<and>
   isMutable val_container_store (Ref 4) = Some True \<and>
   Assign_TypeInfer val_container_store 3 TypeInferer_init =
     Some (Inr (TypeInferer_init\<lparr>eqns := [(Ref 3, Ref 4), (Ref 4, Ref 9)]\<rparr>)) \<and>
   isMutable val_container_store (Ref 8) = Some True \<and>
   Assign_TypeInfer val_container_store 7 TypeInferer_init =
     Some (Inr (TypeInferer_init\<lparr>eqns := [(Ref 7, Ref 8), (Ref 8, Ref 9)]\<rparr>))"
proof -
  have c: "isMutable val_container_store (Ref 6) = Some False"
    using isMutable_Variable [of val_container_store 6 _ "''c''" "Ref 0", OF val_container_store_simps(4)]
      isMutable_Binding [of val_container_store 0 _ "''c''" "Ref 1" NULL "Ref 2" False,
        OF val_container_store_simps(1)] by simp
  note mem = Member_ArrayAccess_always_mutable
      [of val_container_store 4 _ "Ref 6" "''f''" NULL NULL, OF val_container_store_simps(3)]
  note arr = Member_ArrayAccess_always_mutable
      [of val_container_store 8 _ NULL "''f''" "Ref 6" "Ref 5", OF val_container_store_simps(6)]
  have m: "isMutable val_container_store (Ref 4) = Some True"
    using mem by simp
  have m': "Assign_TypeInfer val_container_store 3 TypeInferer_init =
        Some (Inr (eqn (Ref 4) (Ref 9) (eqn (Ref 3) (Ref 4) TypeInferer_init)))"
    using mem [THEN conjunct2, THEN spec, of 3] val_container_store_simps(2)
    by simp
  have a: "isMutable val_container_store (Ref 8) = Some True"
    using arr by simp
  have a': "Assign_TypeInfer val_container_store 7 TypeInferer_init =
        Some (Inr (eqn (Ref 8) (Ref 9) (eqn (Ref 7) (Ref 8) TypeInferer_init)))"
    using arr [THEN conjunct2, THEN spec, of 7] val_container_store_simps(5)
    by simp
  show ?thesis
    using c m m' a a' by (simp add: eqn_def TypeInferer_init_def)
qed

subsection \<open>The resolved-type slot after construction\<close>

lemmas Expr_ctor_defs =
  Number_new_def StringLiteral_new_def Variable_new_def Not_new_def Add_new_def
  Subtract_new_def Multiply_new_def Eq_new_def JoinString_new_def Seq_new_def Assign_new_def
  ArrayAccess_new_def Member_new_def Binding_new_def If_new_def While_new_def Call_new_def
  Register_new_def Func_new1_def Func_new2_def Func_new3_def Extern_new_def Closure_new_def
  Array_new_def Constructor_new_def

text \<open>
  Claim C4, as amended. Immediately after construction \<open>getSType()\<close> returns null for
  every expression class except \<open>RegisterFunArg\<close>, whose constructor stores its argument
  \<open>ty\<close> in the slot: there \<open>getSType()\<close> returns \<open>ty\<close>. All three constructors of \<open>Func\<close>
  are covered.
\<close>

theorem getSType_after_construction:
  "getSType (Number_new val) = NULL \<and>
   getSType (StringLiteral_new s) = NULL \<and>
   getSType (Variable_new name) = NULL \<and>
   getSType (Not_new expr) = NULL \<and>
   getSType (Add_new lhs rhs) = NULL \<and>
   getSType (Subtract_new lhs rhs) = NULL \<and>
   getSType (Multiply_new lhs rhs) = NULL \<and>
   getSType (Eq_new lhs rhs) = NULL \<and>
   getSType (JoinString_new lhs rhs) = NULL \<and>
   getSType (Seq_new lhs rhs) = NULL \<and>
   getSType (Assign_new lhs rhs) = NULL \<and>
   getSType (ArrayAccess_new lhs rhs) = NULL \<and>
   getSType (Member_new source fieldName) = NULL \<and>
   getSType (Binding_new name init canMutate) = NULL \<and>
   getSType (If_new cond then' el) = NULL \<and>
   getSType (While_new cond body) = NULL \<and>
   getSType (Call_new calleeName args) = NULL \<and>
   getSType (Register_new name src canMutate) = NULL \<and>
   getSType (Func_new1 name argstys retsty generics) = NULL \<and>
   getSType (Func_new2 name generics pairs retsty body context purity) = NULL \<and>
   getSType (Func_new3 name argNames argstys retPtr body context purity) = NULL \<and>
   getSType (Extern_new name generics argstys retsty) = NULL \<and>
   getSType (Closure_new name record' func) = NULL \<and>
   getSType (Array_new stName sizeExpr defaultVal) = NULL \<and>
   getSType (Constructor_new name params args) = NULL \<and>
   getSType (RegisterFunArg_new ty) = ty"
  by (simp add: getSType_def Expr_ctor_defs RegisterFunArg_new_def)

text \<open>
  The claim as written fails for \<open>RegisterFunArg\<close>: constructed with the address of a
  type, its slot is not empty.
\<close>

theorem getSType_RegisterFunArg_counterexample:
  "getSType (RegisterFunArg_new (Ref 0)) \<noteq> NULL"
  by (simp add: getSType_def RegisterFunArg_new_def)

subsection \<open>Construction of an \<open>Extern\<close>\<close>

text \<open>
  What the loop of the first constructor leaves, for any counter below the bound: one
  \<open>$\<close> for every step, and the placeholders at the indices it went through.
\<close>

lemma Func_args_loop_Args:
  "Args (Func_args_loop argstys i e f) = Args f @ replicate (unat (e - i)) ''$''"
proof (induction argstys i e f rule: Func_args_loop.induct)
  case (1 argstys i e f)
  show ?case
  proof (cases "i = e")
    case True
    then show ?thesis
      by (simp add: Func_args_loop.simps)
  next
    case False
    have "unat (e - i) = Suc (unat (e - (i + 1)))"
      using False by (rule unsigned_loop_step)
    with False "1.IH" show ?thesis
      by (subst Func_args_loop.simps) (simp add: replicate_append_same)
  qed
qed

lemma Func_args_loop_ArgSTypeNames:
  "i \<le> e \<Longrightarrow>
   ArgSTypeNames (Func_args_loop argstys i e f) =
     ArgSTypeNames f @ map ((!) argstys) [unat i..<unat e]"
proof (induction argstys i e f rule: Func_args_loop.induct)
  case (1 argstys i e f)
  show ?case
  proof (cases "i = e")
    case True
    then show ?thesis
      by (simp add: Func_args_loop.simps)
  next
    case False
    with "1.prems" have less: "i < e"
      by simp
    then have le: "i + 1 \<le> e"
      by (rule inc_le)
    have lt: "unat i < unat e"
      using less by (simp add: word_less_nat_alt)
    have "unat e < 2 ^ 32"
      using unsigned_less [of e] by simp
    with lt have "unat i + unat (1 :: 32 word) < 2 ^ LENGTH(32)"
      by simp
    then have suc: "unat (i + 1) = Suc (unat i)"
      by (simp add: unat_add_lem [THEN iffD1])
    from lt have "[unat i..<unat e] = unat i # [Suc (unat i)..<unat e]"
      by (simp add: upt_conv_Cons)
    with False "1.IH" [OF False le] suc show ?thesis
      by (subst Func_args_loop.simps) simp
  qed
qed

lemma Func_args_loop_Pureness:
  "Pureness (Func_args_loop argstys i e f) = Pureness f"
  by (induction argstys i e f rule: Func_args_loop.induct)
     (subst Func_args_loop.simps, simp)

lemma Func_args_loop_GenericsAreBound:
  "GenericsAreBound (Func_args_loop argstys i e f) = GenericsAreBound f"
  by (induction argstys i e f rule: Func_args_loop.induct)
     (subst Func_args_loop.simps, simp)

lemma Func_fields1_Args:
  "Args (Func_fields1 name argstys retsty generics) =
     replicate (unat (of_nat (length argstys) :: 32 word)) ''$''"
  by (simp add: Func_fields1_def Func_args_loop_Args)

lemma Func_fields1_ArgSTypeNames:
  "ArgSTypeNames (Func_fields1 name argstys retsty generics) =
     take (unat (of_nat (length argstys) :: 32 word)) argstys"
proof -
  have "unat (of_nat (length argstys) :: 32 word) \<le> length argstys"
    by (simp add: unat_of_nat)
  then have "map ((!) argstys) [0..<unat (of_nat (length argstys) :: 32 word)] =
      take (unat (of_nat (length argstys) :: 32 word)) argstys"
    by (intro nth_equalityI) simp_all
  then show ?thesis
    by (simp add: Func_fields1_def Func_args_loop_ArgSTypeNames)
qed

text \<open>
  Claim C8, as amended. An \<open>Extern\<close> is constructed with purity \<open>FunIO\<close> and with
  \<open>GenericsAreBound\<close> false. Every name its constructor gives is \<open>$\<close>, one for each of the
  first \<open>n mod 2^32\<close> of its \<open>n\<close> declared parameter types; so with fewer than \<open>2^32\<close>
  declared parameters, every declared parameter has the name \<open>$\<close> and the parameter
  types are kept as declared. The \<open>Gen\<close> of any \<open>Extern\<close> returns the handle of the
  function that \<open>getFunction\<close> declares under the object's name and signature, and emits
  no body: the module's bodies are the ones it had before.
\<close>

theorem Extern_construction:
  "node (Extern_new name generics args retSType) =
     Extern (Func_fields1 name args retSType generics) \<and>
   Pureness (Func_fields1 name args retSType generics) = FunIO \<and>
   GenericsAreBound (Func_fields1 name args retSType generics) = Some False \<and>
   Args (Func_fields1 name args retSType generics) =
     replicate (length args mod 2 ^ 32) ''$'' \<and>
   ArgSTypeNames (Func_fields1 name args retSType generics) =
     take (length args mod 2 ^ 32) args \<and>
   (length args < 2 ^ 32 \<longrightarrow>
      Args (Func_fields1 name args retSType generics) = replicate (length args) ''$'' \<and>
      ArgSTypeNames (Func_fields1 name args retSType generics) = args) \<and>
   fst (Extern_Gen this m) = Ref (length (declared m)) \<and>
   declared (snd (Extern_Gen this m)) =
     declared m @ [(Name this, ArgSTypes this, RetSType this)] \<and>
   bodies (snd (Extern_Gen this m)) = bodies m"
proof -
  let ?f = "Func_fields1 name args retSType generics"
  have bound: "unat (of_nat (length args) :: 32 word) = length args mod 2 ^ 32"
    by (simp add: unat_of_nat)
  have obj: "node (Extern_new name generics args retSType) = Extern ?f"
    by (simp add: Extern_new_def)
  have pure: "Pureness ?f = FunIO" and flag: "GenericsAreBound ?f = Some False"
    by (simp_all add: Func_fields1_def Func_args_loop_Pureness Func_args_loop_GenericsAreBound)
  have names: "Args ?f = replicate (length args mod 2 ^ 32) ''$''"
    using Func_fields1_Args [of name args retSType generics] by (simp only: bound)
  have types: "ArgSTypeNames ?f = take (length args mod 2 ^ 32) args"
    using Func_fields1_ArgSTypeNames [of name args retSType generics] by (simp only: bound)
  have small: "Args ?f = replicate (length args) ''$'' \<and> ArgSTypeNames ?f = args"
    if "length args < 2 ^ 32"
    using names types that by simp
  have gen: "Extern_Gen this m =
      (Ref (length (declared m)),
       m\<lparr>declared := declared m @ [(Name this, ArgSTypes this, RetSType this)]\<rparr>)"
    by (simp add: Extern_Gen_def Extern_getFunction_def emitExtern_def)
  have handle: "fst (Extern_Gen this m) = Ref (length (declared m))"
    and decl: "declared (snd (Extern_Gen this m)) =
      declared m @ [(Name this, ArgSTypes this, RetSType this)]"
    and nobody: "bodies (snd (Extern_Gen this m)) = bodies m"
    by (simp_all add: gen)
  from obj pure flag names types small handle decl nobody show ?thesis
    by blast
qed

text \<open>
  The declaration \<open>extern puts\<close> with two parameter types: two names \<open>$\<close>; its \<open>Gen\<close> in
  an empty module returns the handle 0 of the declaration \<open>puts\<close> and leaves no body.
\<close>

theorem Extern_construction_witness:
  "(2::nat) < 2 ^ 32 \<and>
   Args (Func_fields1 ''puts'' [Ref 1, Ref 2] 0 []) = [''$'', ''$''] \<and>
   ArgSTypeNames (Func_fields1 ''puts'' [Ref 1, Ref 2] 0 []) = [Ref 1, Ref 2] \<and>
   Pureness (Func_fields1 ''puts'' [Ref 1, Ref 2] 0 []) = FunIO \<and>
   fst (Extern_Gen (Func_fields1 ''puts'' [Ref 1, Ref 2] 0 [])
          \<lparr>declared = [], bodies = Map.empty\<rparr>) = Ref 0 \<and>
   bodies (snd (Extern_Gen (Func_fields1 ''puts'' [Ref 1, Ref 2] 0 [])
          \<lparr>declared = [], bodies = Map.empty\<rparr>)) = Map.empty"
proof -
  note t = Extern_construction
      [of "''puts''" "[]" "[Ref 1, Ref 2]" 0 "Func_fields1 ''puts'' [Ref 1, Ref 2] 0 []"
          "\<lparr>declared = [], bodies = Map.empty\<rparr>"]
  have lt: "(2::nat) < 2 ^ 32"
    by simp
  have len: "length [Ref 1, Ref 2] < (2::nat) ^ 32"
    by simp
  from t len have "Args (Func_fields1 ''puts'' [Ref 1, Ref 2] 0 []) =
      replicate (length [Ref 1, Ref 2]) ''$''"
    by blast
  then have names: "Args (Func_fields1 ''puts'' [Ref 1, Ref 2] 0 []) = [''$'', ''$'']"
    by simp
  from t len have types: "ArgSTypeNames (Func_fields1 ''puts'' [Ref 1, Ref 2] 0 []) =
      [Ref 1, Ref 2]"
    by blast
  from t have pure: "Pureness (Func_fields1 ''puts'' [Ref 1, Ref 2] 0 []) = FunIO"
    by blast
  from t have "fst (Extern_Gen (Func_fields1 ''puts'' [Ref 1, Ref 2] 0 [])
      \<lparr>declared = [], bodies = Map.empty\<rparr>) =
      Ref (length (declared \<lparr>declared = [], bodies = Map.empty\<rparr>))"
    by blast
  then have handle: "fst (Extern_Gen (Func_fields1 ''puts'' [Ref 1, Ref 2] 0 [])
      \<lparr>declared = [], bodies = Map.empty\<rparr>) = Ref 0"
    by simp
  from t have "bodies (snd (Extern_Gen (Func_fields1 ''puts'' [Ref 1, Ref 2] 0 [])
      \<lparr>declared = [], bodies = Map.empty\<rparr>)) =
      bodies \<lparr>declared = [], bodies = Map.empty\<rparr>"
    by blast
  then have nobody: "bodies (snd (Extern_Gen (Func_fields1 ''puts'' [Ref 1, Ref 2] 0 [])
      \<lparr>declared = [], bodies = Map.empty\<rparr>)) = Map.empty"
    by simp
  from lt names types pure handle nobody show ?thesis
    by blast
qed

text \<open>
  The claim as written fails for an \<open>Extern\<close> declared with \<open>2^32\<close> parameter types: the
  bound of the constructor's loop is then 0, and no parameter gets a name.
\<close>

theorem Extern_construction_counterexample:
  "length (replicate (2 ^ 32) NULL) = 2 ^ 32 \<and>
   node (Extern_new ''ext'' [] (replicate (2 ^ 32) NULL) 0) =
     Extern (Func_fields1 ''ext'' (replicate (2 ^ 32) NULL) 0 []) \<and>
   Args (Func_fields1 ''ext'' (replicate (2 ^ 32) NULL) 0 []) = []"
proof -
  have wrap: "(of_nat (length (replicate (2 ^ 32) NULL)) :: 32 word) = 0"
    by simp
  have "Args (Func_fields1 ''ext'' (replicate (2 ^ 32) NULL) 0 []) =
      replicate (unat (of_nat (length (replicate (2 ^ 32) NULL)) :: 32 word)) ''$''"
    by (rule Func_fields1_Args)
  then have "Args (Func_fields1 ''ext'' (replicate (2 ^ 32) NULL) 0 []) = []"
    by (simp only: wrap) simp
  then show ?thesis
    by (simp add: Extern_new_def)
qed

subsection \<open>The parser's tokens\<close>

text \<open>
  Claim C10. The enumeration \<open>Token\<close> has exactly the ten enumerators \<open>tok_eof\<close>,
  \<open>tok_def\<close>, \<open>tok_io\<close>, \<open>tok_imp\<close>, \<open>tok_var\<close>, \<open>tok_val\<close>, \<open>tok_binary\<close>, \<open>tok_unary\<close>,
  \<open>tok_identifier\<close> and \<open>tok_number\<close>; their values are \<open>-1\<close> to \<open>-10\<close> in this order,
  pairwise distinct, so the enumeration has ten values.
\<close>

theorem Token_enumeration:
  "(UNIV :: Token set) =
     {tok_eof, tok_def, tok_io, tok_imp, tok_var, tok_val, tok_binary, tok_unary,
      tok_identifier, tok_number} \<and>
   map Token_value
     [tok_eof, tok_def, tok_io, tok_imp, tok_var, tok_val, tok_binary, tok_unary,
      tok_identifier, tok_number] = [-1, -2, -3, -4, -5, -6, -7, -8, -9, -10] \<and>
   distinct (map Token_value
     [tok_eof, tok_def, tok_io, tok_imp, tok_var, tok_val, tok_binary, tok_unary,
      tok_identifier, tok_number]) \<and>
   card (range Token_value) = 10"
proof -
  have univ: "(UNIV :: Token set) =
     {tok_eof, tok_def, tok_io, tok_imp, tok_var, tok_val, tok_binary, tok_unary,
      tok_identifier, tok_number}"
  proof -
    have "x \<in> {tok_eof, tok_def, tok_io, tok_imp, tok_var, tok_val, tok_binary, tok_unary,
      tok_identifier, tok_number}" for x
      by (cases x) simp_all
    then show ?thesis by blast
  qed
  have "range Token_value = {-1, -2, -3, -4, -5, -6, -7, -8, -9, -10}"
    unfolding univ by simp
  then have "card (range Token_value) = 10" by simp
  with univ show ?thesis by simp
qed

subsection \<open>Parameter rebinding\<close>

lemma SString_get_init:
  "SString_get bind TypeState_init =
     (Ref 0,
      \<lparr>objs = [1 \<mapsto> Int8 ''Int8'',
               0 \<mapsto> SString ''Array'' (bind StructMembers_init) (Ref 1) [] [] [] Uninit],
       brk = 2, Singleton = Ref 0, gid = 0\<rparr>)"
  by (simp add: SString_get_def TypeState_init_def alloc_def SString_ctor_def new_obj_def
        store_obj_def Int8_new_def)

text \<open>
  Claim C9. For an object of any class but \<open>SArray\<close> itself and \<open>SFunctionType\<close> (that
  is: \<open>SVoid\<close>, the integer primitives, \<open>SBool\<close>, \<open>SStructType\<close>, \<open>SPtr\<close>, \<open>SGenericType\<close>
  and \<open>SString\<close>) \<open>ParamRebind(prms)\<close> returns \<open>this\<close> for every vector \<open>prms\<close> and
  changes nothing, whatever the two overriding bodies do. Only an \<open>SArray\<close> or an
  \<open>SFunctionType\<close> can return anything else.
\<close>

theorem ParamRebind_identity:
  assumes "objs st this = Some t"
  shows "(\<not> overrides_ParamRebind t \<longrightarrow>
            ParamRebind ar fr this prms st = Some (Ref this, st)) \<and>
         (ParamRebind ar fr this prms st \<noteq> Some (Ref this, st) \<longrightarrow>
            (\<exists>n m c. t = SArray n m c) \<or> (\<exists>n args ret. t = SFunctionType n args ret)) \<and>
         overrides_ParamRebind t =
           ((\<exists>n m c. t = SArray n m c) \<or> (\<exists>n args ret. t = SFunctionType n args ret))"
  using assms by (cases t) (simp_all add: ParamRebind_def)

text \<open>The String singleton (address 0) and its \<open>Int8\<close> (address 1) are returned as they are.\<close>

theorem ParamRebind_identity_witness:
  "ParamRebind (\<lambda>a p s. (NULL, s)) (\<lambda>a p s. (NULL, s)) 0 [Ref 1]
     (snd (SString_get (\<lambda>m. m) TypeState_init)) =
     Some (Ref 0, snd (SString_get (\<lambda>m. m) TypeState_init)) \<and>
   ParamRebind (\<lambda>a p s. (NULL, s)) (\<lambda>a p s. (NULL, s)) 1 [Ref 1]
     (snd (SString_get (\<lambda>m. m) TypeState_init)) =
     Some (Ref 1, snd (SString_get (\<lambda>m. m) TypeState_init))"
  using ParamRebind_identity
          [of "snd (SString_get (\<lambda>m. m) TypeState_init)" 0
              "SString ''Array'' StructMembers_init (Ref 1) [] [] [] Uninit"
              "\<lambda>a p s. (NULL, s)" "\<lambda>a p s. (NULL, s)" "[Ref 1]"]
        ParamRebind_identity
          [of "snd (SString_get (\<lambda>m. m) TypeState_init)" 1 "Int8 ''Int8''"
              "\<lambda>a p s. (NULL, s)" "\<lambda>a p s. (NULL, s)" "[Ref 1]"]
  by (simp add: SString_get_init)

subsection \<open>Ids of generic types\<close>

lemma construct_generics_length:
  "length (fst (construct_generics rs st)) = length rs"
  by (induction rs arbitrary: st) (simp_all add: split_beta)

lemma construct_generics_nth:
  "i < length rs \<Longrightarrow>
   fst (construct_generics rs st) ! i =
     SGenericType (fst (rs ! i)) (gid st + of_nat i) NULL (snd (rs ! i))"
proof (induction rs arbitrary: st i)
  case Nil
  then show ?case by simp
next
  case (Cons r rs)
  show ?case
  proof (cases i)
    case 0
    then show ?thesis by (simp add: split_beta SGenericType_new_def)
  next
    case (Suc j)
    with Cons.prems have "j < length rs" by simp
    from Cons.IH [OF this, of "snd (SGenericType_new (fst r) (snd r) st)"] Suc
    show ?thesis by (simp add: split_beta SGenericType_new_def)
  qed
qed

lemma construct_generics_id:
  "i < length rs \<Longrightarrow>
   SGenericType_id (fst (construct_generics rs st) ! i) = gid st + of_nat i"
  by (simp add: construct_generics_nth)

text \<open>
  Claim C5, as amended. Every \<open>SGenericType\<close> receives the value of the counter \<open>gid\<close>,
  which the constructor then increments. As long as the counter does not wrap around
  (no more than \<open>2^32\<close> values handed out, counting from its start at 0), an instance
  constructed later has a strictly larger id than one constructed earlier, so no two
  instances share an id.
\<close>

theorem SGenericType_ids_increase:
  assumes "unat (gid st) + length rs \<le> 2 ^ 32" and "i < j" and "j < length rs"
  shows "SGenericType_id (fst (construct_generics rs st) ! i) <
           SGenericType_id (fst (construct_generics rs st) ! j) \<and>
         SGenericType_id (fst (construct_generics rs st) ! i) \<noteq>
           SGenericType_id (fst (construct_generics rs st) ! j)"
proof -
  have i: "SGenericType_id (fst (construct_generics rs st) ! i) = gid st + of_nat i"
    using assms by (simp add: construct_generics_id)
  have j: "SGenericType_id (fst (construct_generics rs st) ! j) = gid st + of_nat j"
    using assms by (simp add: construct_generics_id)
  have bi: "unat (gid st) + i < 2 ^ 32" and bj: "unat (gid st) + j < 2 ^ 32"
    using assms by simp_all
  have ui: "unat (gid st + of_nat i) = unat (gid st) + i"
    using bi by (simp add: unat_add_lem [THEN iffD1] unat_of_nat take_bit_nat_eq_self)
  have uj: "unat (gid st + of_nat j) = unat (gid st) + j"
    using bj by (simp add: unat_add_lem [THEN iffD1] unat_of_nat take_bit_nat_eq_self)
  have lt: "gid st + of_nat i < gid st + of_nat j"
    using ui uj assms(2) by (simp add: word_less_nat_alt)
  show ?thesis
    unfolding i j using lt order.strict_implies_not_eq by blast
qed

text \<open>The first two generic types of a process get the ids 0 and 1.\<close>

theorem SGenericType_ids_increase_witness:
  "SGenericType_id (fst (construct_generics [(''T'', []), (''U'', [])] TypeState_init) ! 0) <
     SGenericType_id (fst (construct_generics [(''T'', []), (''U'', [])] TypeState_init) ! 1) \<and>
   SGenericType_id (fst (construct_generics [(''T'', []), (''U'', [])] TypeState_init) ! 0) \<noteq>
     SGenericType_id (fst (construct_generics [(''T'', []), (''U'', [])] TypeState_init) ! 1)"
proof -
  have "unat (gid TypeState_init) + length [(''T'', []::ptr list), (''U'', [])] \<le> 2 ^ 32"
    by (simp add: TypeState_init_def)
  from SGenericType_ids_increase [OF this, of 0 1] show ?thesis
    by simp
qed

text \<open>
  The claim as written fails once the \<open>unsigned\<close> counter wraps: of \<open>2^32 + 1\<close> generic
  types constructed from process start, the first and the last both have id 0.
\<close>

theorem SGenericType_id_wraps_counterexample:
  "(0::nat) < 2 ^ 32 \<and>
   2 ^ 32 < length (fst (construct_generics (replicate (2 ^ 32 + 1) (''T'', [])) TypeState_init)) \<and>
   SGenericType_id
     (fst (construct_generics (replicate (2 ^ 32 + 1) (''T'', [])) TypeState_init) ! 0) =
   SGenericType_id
     (fst (construct_generics (replicate (2 ^ 32 + 1) (''T'', [])) TypeState_init) ! (2 ^ 32))"
proof -
  let ?rs = "replicate (2 ^ 32 + 1) (''T'', []::ptr list)"
  have len: "length ?rs = 2 ^ 32 + 1"
    by (rule length_replicate)
  have first: "SGenericType_id (fst (construct_generics ?rs TypeState_init) ! 0) =
      gid TypeState_init + of_nat 0"
    by (rule construct_generics_id) simp
  have last: "SGenericType_id (fst (construct_generics ?rs TypeState_init) ! (2 ^ 32)) =
      gid TypeState_init + of_nat (2 ^ 32)"
    by (rule construct_generics_id) simp
  have wrap: "(of_nat (2 ^ 32) :: 32 word) = 0"
    by simp
  have "2 ^ 32 < length (fst (construct_generics ?rs TypeState_init))"
    by (simp add: construct_generics_length)
  then show ?thesis
    by (simp only: first last wrap, simp)
qed

subsection \<open>The String singleton\<close>

lemma SString_get_first:
  assumes "Singleton st = NULL"
  shows "SString_get bind st =
     (Ref (brk st),
      st\<lparr>objs := (objs st)(Suc (brk st) \<mapsto> Int8 ''Int8'',
                brk st \<mapsto> SString ''Array'' (bind StructMembers_init) (Ref (Suc (brk st))) [] [] [] Uninit),
         brk := Suc (Suc (brk st)), Singleton := Ref (brk st)\<rparr>)"
  using assms
  by (simp add: SString_get_def alloc_def SString_ctor_def new_obj_def store_obj_def Int8_new_def)

lemma SString_get_later:
  "Singleton st = Ref a \<Longrightarrow> SString_get bind st = (Ref a, st)"
  by (simp add: SString_get_def)

lemma SString_get_calls_later:
  "Singleton st = Ref a \<Longrightarrow> SString_get_calls bind n st = (replicate n (Ref a), st)"
  by (induction n) (simp_all add: SString_get_later)

lemma SString_get_calls_first:
  assumes "Singleton st = NULL"
  shows "SString_get_calls bind (Suc n) st =
           (replicate (Suc n) (fst (SString_get bind st)), snd (SString_get bind st))"
proof -
  have "Singleton (snd (SString_get bind st)) = Ref (brk st)"
    using assms by (simp add: SString_get_first)
  from SString_get_calls_later [OF this, of bind n] show ?thesis
    using assms by (simp add: SString_get_first)
qed



lemma new_Array_Int8_eq:
  "new_Array_Int8 st =
     (Suc (brk st),
      st\<lparr>objs := (objs st)(brk st \<mapsto> Int8 ''Int8'',
                Suc (brk st) \<mapsto> SArray ''Array'' StructMembers_init (Ref (brk st))),
         brk := Suc (Suc (brk st))\<rparr>)"
  by (simp add: new_Array_Int8_def new_obj_def alloc_def store_obj_def Int8_new_def SArray_new_def)

lemma struct_eq_String_Array:
  assumes "h a = Some (SString n m (Ref a8) en et es tt)" and "h a8 = Some (Int8 n8)"
    and "h q = Some (SArray n' m' (Ref q8))" and "h q8 = Some (Int8 n8')"
  shows "struct_eq h (Ref a) (Ref q)"
proof -
  have c: "struct_eq h (Ref a8) (Ref q8)"
    using assms(2,4) by (rule eq_Int8)
  show ?thesis
    by (rule eq_Array [OF assms(1) assms(3) _ _ c]) simp_all
qed

text \<open>
  Claim C7. Starting before the first call of \<open>SString::get()\<close> (the static pointer is
  null), every call returns the same instance: any number of calls in a row return the
  pointer the first call returned, and the calls after the first change nothing. That
  instance is an array type: it is an \<open>SString\<close>, a subclass of \<open>SArray\<close>, so it has a
  contained type, which is an \<open>Int8\<close> object, and its name is the name every \<open>SArray\<close>
  is constructed with. It is structurally equal to \<open>Array<Int8>\<close>: to the object that
  \<open>new SArray(new Int8())\<close> makes.
\<close>

theorem SString_singleton_is_Array_Int8:
  assumes "Singleton st = NULL"
  shows "fst (SString_get_calls bind (Suc n) st) = replicate (Suc n) (fst (SString_get bind st)) \<and>
         snd (SString_get_calls bind (Suc n) st) = snd (SString_get bind st) \<and>
         (\<exists>a t c. fst (SString_get bind st) = Ref a \<and>
            objs (snd (SString_get bind st)) a = Some t \<and>
            getName t = getName (SArray_new ty) \<and>
            getContained t = Some (Ref c) \<and>
            objs (snd (SString_get bind st)) c = Some Int8_new) \<and>
         struct_eq (objs (snd (new_Array_Int8 (snd (SString_get bind st)))))
           (fst (SString_get bind st))
           (Ref (fst (new_Array_Int8 (snd (SString_get bind st)))))"
proof -
  let ?a = "brk st"
  let ?st1 = "snd (SString_get bind st)"
  let ?str = "SString ''Array'' (bind StructMembers_init) (Ref (Suc ?a)) [] [] [] Uninit"
  have p: "fst (SString_get bind st) = Ref ?a"
    using assms by (simp add: SString_get_first)
  have obj: "objs ?st1 ?a = Some ?str"
    using assms by (simp add: SString_get_first)
  have elt: "objs ?st1 (Suc ?a) = Some (Int8 ''Int8'')"
    using assms by (simp add: SString_get_first)
  have brk1: "brk ?st1 = Suc (Suc ?a)"
    using assms by (simp add: SString_get_first)
  have calls: "SString_get_calls bind (Suc n) st = (replicate (Suc n) (Ref ?a), ?st1)"
    using SString_get_calls_first [OF assms, of bind n] p by simp
  have shape: "\<exists>a t c. fst (SString_get bind st) = Ref a \<and> objs ?st1 a = Some t \<and>
      getName t = getName (SArray_new ty) \<and> getContained t = Some (Ref c) \<and>
      objs ?st1 c = Some Int8_new"
    using p obj elt by (simp add: SArray_new_def Int8_new_def)
  let ?st3 = "snd (new_Array_Int8 ?st1)"
  have q: "fst (new_Array_Int8 ?st1) = Suc (Suc (Suc ?a))"
    using brk1 by (simp add: new_Array_Int8_eq)
  have e1: "objs ?st3 ?a = Some ?str"
    using obj brk1 by (simp add: new_Array_Int8_eq)
  have e2: "objs ?st3 (Suc ?a) = Some (Int8 ''Int8'')"
    using elt brk1 by (simp add: new_Array_Int8_eq)
  have e3: "objs ?st3 (Suc (Suc ?a)) = Some (Int8 ''Int8'')"
    using brk1 by (simp add: new_Array_Int8_eq)
  have e4: "objs ?st3 (Suc (Suc (Suc ?a))) =
      Some (SArray ''Array'' StructMembers_init (Ref (Suc (Suc ?a))))"
    using brk1 by (simp add: new_Array_Int8_eq)
  have "struct_eq (objs ?st3) (Ref ?a) (Ref (Suc (Suc (Suc ?a))))"
    using e1 e2 e4 e3 by (rule struct_eq_String_Array)
  then have eq: "struct_eq (objs ?st3) (fst (SString_get bind st))
      (Ref (fst (new_Array_Int8 ?st1)))"
    by (simp only: p q)
  have c1: "fst (SString_get_calls bind (Suc n) st) =
      replicate (Suc n) (fst (SString_get bind st))"
    by (simp only: calls p fst_conv)
  have c2: "snd (SString_get_calls bind (Suc n) st) = ?st1"
    by (simp only: calls snd_conv)
  from c1 c2 shape eq show ?thesis
    by blast
qed

text \<open>
  From process start: three calls return the address 0 three times; the object there is
  named \<open>Array\<close> and contains the \<open>Int8\<close> at address 1; the \<open>Array<Int8>\<close> made next is at
  address 3.
\<close>

theorem SString_singleton_is_Array_Int8_witness:
  "fst (SString_get_calls (\<lambda>m. m) (Suc 2) TypeState_init) = [Ref 0, Ref 0, Ref 0] \<and>
   objs (snd (SString_get (\<lambda>m. m) TypeState_init)) 0 =
     Some (SString ''Array'' StructMembers_init (Ref 1) [] [] [] Uninit) \<and>
   objs (snd (SString_get (\<lambda>m. m) TypeState_init)) 1 = Some (Int8 ''Int8'') \<and>
   struct_eq (objs (snd (new_Array_Int8 (snd (SString_get (\<lambda>m. m) TypeState_init)))))
     (Ref 0) (Ref 3)"
proof -
  have "Singleton TypeState_init = NULL"
    by (simp add: TypeState_init_def)
  note t = SString_singleton_is_Array_Int8 [OF this, of "\<lambda>m. m" 2 NULL]
  have g: "fst (SString_get (\<lambda>m. m) TypeState_init) = Ref 0"
    by (simp add: SString_get_init)
  have q: "fst (new_Array_Int8 (snd (SString_get (\<lambda>m. m) TypeState_init))) = 3"
    by (simp add: SString_get_init new_Array_Int8_eq)
  from t have "fst (SString_get_calls (\<lambda>m. m) (Suc 2) TypeState_init) =
      replicate (Suc 2) (fst (SString_get (\<lambda>m. m) TypeState_init))"
    by blast
  then have calls: "fst (SString_get_calls (\<lambda>m. m) (Suc 2) TypeState_init) =
      [Ref 0, Ref 0, Ref 0]"
    by (simp only: g) (simp add: numeral_2_eq_2)
  from t have "struct_eq (objs (snd (new_Array_Int8 (snd (SString_get (\<lambda>m. m) TypeState_init)))))
      (fst (SString_get (\<lambda>m. m) TypeState_init))
      (Ref (fst (new_Array_Int8 (snd (SString_get (\<lambda>m. m) TypeState_init)))))"
    by blast
  then have eq: "struct_eq
      (objs (snd (new_Array_Int8 (snd (SString_get (\<lambda>m. m) TypeState_init))))) (Ref 0) (Ref 3)"
    by (simp only: g q)
  have o0: "objs (snd (SString_get (\<lambda>m. m) TypeState_init)) 0 =
      Some (SString ''Array'' StructMembers_init (Ref 1) [] [] [] Uninit)"
    by (simp add: SString_get_init)
  have o1: "objs (snd (SString_get (\<lambda>m. m) TypeState_init)) 1 = Some (Int8 ''Int8'')"
    by (simp add: SString_get_init)
  from calls o0 o1 eq show ?thesis
    by blast
qed

subsection \<open>Keys of the specialization table\<close>

lemma Func_pairs_loop_functions:
  "functions' (Func_pairs_loop args i e f) = functions' f"
  by (induction args i e f rule: Func_pairs_loop.induct)
     (subst Func_pairs_loop.simps, simp)

lemma two_arrays_state_objs:
  "objs two_arrays_state 0 = Some (Int32 ''Int32'')"
  "objs two_arrays_state 1 = Some (SArray ''Array'' StructMembers_init (Ref 0))"
  "objs two_arrays_state 2 = Some (SArray ''Array'' StructMembers_init (Ref 0))"
  by (simp_all add: two_arrays_state_def new_obj_def alloc_def store_obj_def TypeState_init_def
        Int32_new_def SArray_new_def)

text \<open>
  Claim C2, as amended. The table \<open>Func::functions\<close> is keyed by the tuple of \<open>SType\<close>
  pointers: after a specialization is stored under a tuple, a lookup finds it exactly
  with the tuple of the same pointers, position by position, and every other tuple
  selects what it selected before. The same pointers always select the same entry.
\<close>

theorem functions_keyed_by_pointers:
  "functions_find (functions_store key fn f) key' =
     (if key' = key then Some fn else functions_find f key')"
  by (simp add: functions_find_def functions_store_def)

text \<open>
  The claim as written fails: the two \<open>Array<Int32>\<close> objects at addresses 1 and 2 are
  structurally equal (they are even equal member by member, so whatever \<open>dump\<close> prints
  for one it prints for the other), and the specialization of \<open>id\<close> stored under the
  tuple of the first is not found under the tuple of the second.
\<close>

theorem functions_structural_key_counterexample:
  "objs two_arrays_state 1 = objs two_arrays_state 2 \<and>
   list_all2 (struct_eq (objs two_arrays_state)) [Ref 1] [Ref 2] \<and>
   functions_find (functions_store [Ref 1] (Ref 0) id_func) [Ref 1] = Some (Ref 0) \<and>
   functions_find (functions_store [Ref 1] (Ref 0) id_func) [Ref 2] = None"
proof -
  have same: "objs two_arrays_state 1 = objs two_arrays_state 2"
    by (simp only: two_arrays_state_objs)
  have elt: "struct_eq (objs two_arrays_state) (Ref 0) (Ref 0)"
    using two_arrays_state_objs(1) two_arrays_state_objs(1) by (rule eq_Int32)
  have "struct_eq (objs two_arrays_state) (Ref 1) (Ref 2)"
    by (rule eq_Array [OF two_arrays_state_objs(2) two_arrays_state_objs(3) _ _ elt]) simp_all
  then have tuple: "list_all2 (struct_eq (objs two_arrays_state)) [Ref 1] [Ref 2]"
    by simp
  have hit: "functions_find (functions_store [Ref 1] (Ref 0) id_func) [Ref 1] = Some (Ref 0)"
    by (simp add: functions_find_def functions_store_def)
  have miss: "functions_find (functions_store [Ref 1] (Ref 0) id_func) [Ref 2] = None"
    by (simp add: functions_find_def functions_store_def id_func_def Func_fields2_def
          Func_pairs_loop_functions)
  from same tuple hit miss show ?thesis
    by blast
qed

subsection \<open>Matching generics\<close>

text \<open>
  Matching a signature against an instance of itself succeeds and records, in the order
  of the walk, one binding for every generic position: the generic's id with the type
  the instance has there.
\<close>

lemma match_types_instance:
  assumes "\<And>s bs. s \<in> set ss \<Longrightarrow>
      match_type s (instance_of \<sigma> s) bs = Some (bs @ map (\<lambda>i. (i, \<sigma> i)) (generics_of s))"
  shows "match_types ss (map (instance_of \<sigma>) ss) bs =
      Some (bs @ map (\<lambda>i. (i, \<sigma> i)) (concat (map generics_of ss)))"
  using assms
proof (induction ss arbitrary: bs)
  case Nil
  show ?case by simp
next
  case (Cons s ss)
  have hd: "match_type s (instance_of \<sigma> s) bs = Some (bs @ map (\<lambda>i. (i, \<sigma> i)) (generics_of s))"
    by (rule Cons.prems) simp
  have tl: "match_types ss (map (instance_of \<sigma>) ss) bs' =
      Some (bs' @ map (\<lambda>i. (i, \<sigma> i)) (concat (map generics_of ss)))" for bs'
    by (rule Cons.IH) (simp add: Cons.prems)
  show ?case
    by (simp add: hd tl)
qed

lemma match_type_instance:
  "match_type s (instance_of \<sigma> s) bs = Some (bs @ map (\<lambda>i. (i, \<sigma> i)) (generics_of s))"
proof (induction s arbitrary: bs)
  case (TyFunction ss r)
  have args: "match_types ss (map (instance_of \<sigma>) ss) bs =
      Some (bs @ map (\<lambda>i. (i, \<sigma> i)) (concat (map generics_of ss)))"
    by (rule match_types_instance) (rule TyFunction.IH(1))
  show ?case
    by (simp add: args TyFunction.IH(2))
qed simp_all

text \<open>Bindings that cover the generics of a type rebuild the instance from it.\<close>

lemma map_of_bindings:
  "i \<in> set is \<Longrightarrow> map_of (map (\<lambda>i. (i, \<sigma> i)) is) i = Some (\<sigma> i)"
  by (induction "is") auto

lemma apply_bindings_instance:
  "set (generics_of s) \<subseteq> set is \<Longrightarrow>
   apply_bindings (map (\<lambda>i. (i, \<sigma> i)) is) s = instance_of \<sigma> s"
proof (induction s)
  case (TyGeneric n i)
  then show ?case by (simp add: map_of_bindings)
next
  case (TyFunction ss r)
  have "apply_bindings (map (\<lambda>i. (i, \<sigma> i)) is) x = instance_of \<sigma> x" if "x \<in> set ss" for x
  proof (rule TyFunction.IH(1) [OF that])
    show "set (generics_of x) \<subseteq> set is"
      using TyFunction.prems that by auto
  qed
  moreover have "apply_bindings (map (\<lambda>i. (i, \<sigma> i)) is) r = instance_of \<sigma> r"
    using TyFunction.prems by (intro TyFunction.IH(2)) simp
  ultimately show ?case by simp
qed simp_all

text \<open>
  Claim C6. Let the call site's type tuple match the signature, that is, be an instance
  of the signature's argument types (each generic \<open>i\<close> replaced by a type \<open>\<sigma> i\<close>, the same
  at every occurrence, and everything else structurally equal). Then \<open>MatchGenerics\<close>
  succeeds; the bindings it derives are the ones recorded at the generic positions of
  the signature, in order; and applying the derived bindings back to the signature's
  arguments yields exactly the call site's types.
\<close>

theorem MatchGenerics_bindings_rebuild_site:
  assumes "callTypes = map (instance_of \<sigma>) args"
  shows "MatchGenerics args callTypes =
           Some (map (\<lambda>i. (i, \<sigma> i)) (concat (map generics_of args))) \<and>
         (\<forall>bs. MatchGenerics args callTypes = Some bs \<longrightarrow>
            map (apply_bindings bs) args = callTypes)"
proof -
  let ?bs = "map (\<lambda>i. (i, \<sigma> i)) (concat (map generics_of args))"
  have "match_types args (map (instance_of \<sigma>) args) [] = Some ([] @ ?bs)"
    by (rule match_types_instance) (rule match_type_instance)
  then have found: "MatchGenerics args callTypes = Some ?bs"
    by (simp add: MatchGenerics_def assms)
  have "apply_bindings ?bs s = instance_of \<sigma> s" if "s \<in> set args" for s
  proof (rule apply_bindings_instance)
    show "set (generics_of s) \<subseteq> set (concat (map generics_of args))"
      using that by auto
  qed
  then have "map (apply_bindings ?bs) args = callTypes"
    by (simp add: assms)
  with found show ?thesis by simp
qed

text \<open>
  The signature \<open>(Array<T>, T, Int32, U)\<close> against the site \<open>(Array<Int8>, Int8, Int32, P)\<close>.
\<close>

theorem MatchGenerics_bindings_rebuild_site_witness:
  "MatchGenerics [TyArray (TyGeneric ''T'' 0), TyGeneric ''T'' 0, TyInt32, TyGeneric ''U'' 1]
     [TyArray TyInt8, TyInt8, TyInt32, TyStruct ''P''] =
     Some [(0, TyInt8), (0, TyInt8), (1, TyStruct ''P'')] \<and>
   map (apply_bindings [(0, TyInt8), (0, TyInt8), (1, TyStruct ''P'')])
     [TyArray (TyGeneric ''T'' 0), TyGeneric ''T'' 0, TyInt32, TyGeneric ''U'' 1] =
     [TyArray TyInt8, TyInt8, TyInt32, TyStruct ''P'']"
  using MatchGenerics_bindings_rebuild_site
          [of "[TyArray TyInt8, TyInt8, TyInt32, TyStruct ''P'']"
              "\<lambda>i. if i = 0 then TyInt8 else TyStruct ''P''"
              "[TyArray (TyGeneric ''T'' 0), TyGeneric ''T'' 0, TyInt32, TyGeneric ''U'' 1]"]
  by simp

end
